theory Spec2Isabelle
  imports
    Main
    "HOL-Library.Word"
    "HOL-Library.Multiset"
    "HOL-Library.Char_ord"
    "HOL-Library.List_Lexorder"
begin

unbundle bit_operations_syntax

section \<open>The broker's query runner and garbage collector\<close>

text \<open>
  A shallow embedding of \<^verbatim>\<open>pkg/broker/executor/query_runner.go\<close> (the
  \<^verbatim>\<open>QueryRunner\<close>) and of the two garbage-collection loops of package
  \<^verbatim>\<open>application\<close>. Go strings are byte strings, modelled as \<^typ>\<open>string\<close>;
  \<^verbatim>\<open>int32\<close> is \<^typ>\<open>32 word\<close>; a \<^verbatim>\<open>(value, error)\<close> result is a sum with the
  error on the left. Calls into collaborators whose code is outside the two files (the
  metadata store, the RPC stub, the party manager) are inputs of the model: each function
  takes what those calls return.
\<close>

subsection \<open>Errors\<close>

text \<open>
  Go errors are values built by \<^verbatim>\<open>fmt.Errorf\<close>. One constructor per format string
  of the two files, \<open>External\<close> for an error some collaborator returned, and one
  for the panic of a nil pointer dereference.
\<close>

datatype error =
    External string
  | Wrapped string error
  | ErrResponse string
  | ExchangeFailed string "32 word" string
  | TableNotFound "string list"
  | MissingGraph
  | NilPointerPanic

subsection \<open>Protocol messages of \<^verbatim>\<open>ExchangeJobInfo\<close>\<close>

record pb_Status =
  Code :: "32 word"
  Message :: string

type_synonym bytes = "nat list"

record Checksum =
  TableSchema :: bytes
  CCL :: bytes

record ExchangeJobInfoRequest =
  ProjectId :: string
  JobId :: string
  ClientId :: string
  ServerChecksum :: "Checksum option"

record ExchangeJobInfoResponse =
  Status :: "pb_Status option"
  ExpectedServerChecksum :: "Checksum option"

text \<open>
  The generated getters are nil-safe: \<^verbatim>\<open>GetStatus\<close> returns the (possibly nil)
  status pointer, and \<^verbatim>\<open>GetCode\<close> on a nil status returns the zero value of
  \<^verbatim>\<open>int32\<close>.
\<close>

definition GetStatus :: "ExchangeJobInfoResponse \<Rightarrow> pb_Status option" where
  "GetStatus r = Status r"

definition GetCode :: "pb_Status option \<Rightarrow> 32 word" where
  "GetCode st = (case st of None \<Rightarrow> 0 | Some s \<Rightarrow> Code s)"

text \<open>
  The two status codes the function compares with. Their numeric values are declared in
  the generated protocol package; they are taken as a parameter.
\<close>

record pb_Codes =
  Code_SESSION_NOT_FOUND :: "32 word"
  Code_DATA_INCONSISTENCY :: "32 word"

subsection \<open>The session\<close>

text \<open>
  The session as the runner reads it: \<^verbatim>\<open>session.ExecuteInfo\<close>,
  \<^verbatim>\<open>session.App.Conf\<close>, \<^verbatim>\<open>session.App.PartyMgr\<close> and
  \<^verbatim>\<open>session.App.MetaMgr\<close>, and the session's own methods. A method of a
  collaborator is a field holding what the method answers.
\<close>

record Participant =
  PartyCode :: string
  Endpoints :: "string list"
  PubKey :: string

record ExecutionInfo =
  ProjectID :: string
  JobID :: string
  Issuer :: string
  DataParties :: "string list"
  DebugOpts :: string
  EngineClient :: string

record Config =
  PartyCode :: string
  ExchangeJobInfoRetryTimes :: int
  IntraServer_Protocol :: string
  Engine_Protocol :: string
  Engine_ContentType :: string

record PartyMgr =
  GetBrokerUrlByParty :: "string \<Rightarrow> error + string"
  GetPartyInfoByParties :: "string list \<Rightarrow> error + Participant list"
  GetPubKeyByParty :: "string \<Rightarrow> error + string"

text \<open>
  Table metadata of package \<^verbatim>\<open>storage\<close>, as the runner reads it:
  \<^verbatim>\<open>TableMeta.Table\<close> and \<^verbatim>\<open>TableMeta.Columns\<close>, and a column
  constraint as \<^verbatim>\<open>ListColumnConstraints\<close> returns it.
\<close>

record Table =
  ProjectID :: string
  TableName :: string
  Owner :: string
  RefTable :: string
  DBType :: string

record Column =
  ColumnName :: string
  DType :: string

record TableMeta =
  Table :: Table
  Columns :: "Column list"

record ColumnPriv =
  DestParty :: string
  Priv :: string
  ProjectID :: string
  TableName :: string
  ColumnName :: string

text \<open>
  The metadata manager. \<^verbatim>\<open>prepareData\<close> opens at most two transactions, one
  after the other; the first argument of each method is the number of the transaction it
  is called on (0 or 1), so the second lookup may answer differently from the first.
  \<^verbatim>\<open>GetTableMetasByTableNames\<close> returns the tables found, the names not found
  and an error; \<^verbatim>\<open>Finish\<close> takes the error so far and returns the error of the
  transaction.
\<close>

record MetaMgr =
  GetTableMetasByTableNames ::
    "nat \<Rightarrow> string \<Rightarrow> string list \<Rightarrow> TableMeta list \<times> string list \<times> error option"
  GetProjectMembers :: "nat \<Rightarrow> string \<Rightarrow> error + string list"
  ListColumnConstraints ::
    "nat \<Rightarrow> string \<Rightarrow> string list \<Rightarrow> string list \<Rightarrow> ColumnPriv list \<times> error option"
  Finish :: "nat \<Rightarrow> error option \<Rightarrow> error option"

record App =
  Conf :: Config
  PartyMgr :: PartyMgr
  MetaMgr :: MetaMgr

record Session =
  ExecuteInfo :: ExecutionInfo
  App :: App
  GetSelfPartyCode :: string
  GetLocalChecksum :: "string \<Rightarrow> error + Checksum"
  GetEndpoint :: "string \<Rightarrow> error + string"
  GetEndpointForSelf :: string
  CallBackHost :: string
  IsIssuer :: bool
  AsyncMode :: bool

text \<open>
  The RPC stub: the answer to the \<open>k\<close>-th call (counted from 0) with a given url and
  request is either a transport error or the response it filled in.
\<close>

type_synonym InterStub = "nat \<Rightarrow> string \<Rightarrow> ExchangeJobInfoRequest \<Rightarrow> error + ExchangeJobInfoResponse"

text \<open>
  What a run did besides returning: how many times the stub was called and how many
  times \<^verbatim>\<open>time.Sleep\<close> was called.
\<close>

record 'a Ran =
  result :: 'a
  attempts :: nat
  sleeps :: nat

datatype loop_exit =
    Returned "error + ExchangeJobInfoResponse"
  | LeftLoop ExchangeJobInfoResponse

text \<open>
  The retry loop \<^verbatim>\<open>for i := 0; i < RetryTimes; i++\<close>. \<open>response\<close> is the
  response object the stub writes into, \<open>sl\<close> the sleeps so far. The loop ends by a
  \<^verbatim>\<open>return\<close>, by \<^verbatim>\<open>break\<close> or by its condition.
\<close>

function exchange_loop ::
  "pb_Codes \<Rightarrow> int \<Rightarrow> InterStub \<Rightarrow> string \<Rightarrow> ExchangeJobInfoRequest \<Rightarrow>
   nat \<Rightarrow> ExchangeJobInfoResponse \<Rightarrow> nat \<Rightarrow> loop_exit Ran" where
  "exchange_loop pb n stub url req i response sl =
     (if int i < n then
        (case stub i url req of
           Inl err \<Rightarrow>
             \<lparr>result = Returned (Inl (Wrapped ''ExchangeJobInfoStub'' err)),
              attempts = Suc i, sleeps = sl\<rparr>
         | Inr response' \<Rightarrow>
             if GetCode (GetStatus response') = Code_SESSION_NOT_FOUND pb then
               exchange_loop pb n stub url req (Suc i) response'
                 (if int i < n - 1 then Suc sl else sl)
             else if GetCode (GetStatus response') = 0 then
               \<lparr>result = Returned (Inr response'), attempts = Suc i, sleeps = sl\<rparr>
             else \<lparr>result = LeftLoop response', attempts = Suc i, sleeps = sl\<rparr>)
      else \<lparr>result = LeftLoop response, attempts = i, sleeps = sl\<rparr>)"
  by pat_completeness auto
termination
  by (relation "measure (\<lambda>(pb, n, stub, url, req, i, response, sl). nat (n - int i))") auto

declare exchange_loop.simps [simp del]

text \<open>The request, with the local checksum attached when the target is a data party.\<close>

definition exchange_request ::
  "Session \<Rightarrow> string \<Rightarrow> error + ExchangeJobInfoRequest" where
  "exchange_request s targetParty =
     (let executionInfo = ExecuteInfo s;
          req = \<lparr>ProjectId = ExecutionInfo.ProjectID executionInfo, JobId = JobID executionInfo,
                 ClientId = GetSelfPartyCode s, ServerChecksum = None\<rparr>
      in if targetParty \<in> set (DataParties executionInfo) then
           (case GetLocalChecksum s targetParty of
              Inl err \<Rightarrow> Inl (Wrapped ''ExchangeJobInfo'' err)
            | Inr serverChecksum \<Rightarrow> Inr (req\<lparr>ServerChecksum := Some serverChecksum\<rparr>))
         else Inr req)"

definition after_loop ::
  "pb_Codes \<Rightarrow> string \<Rightarrow> ExchangeJobInfoResponse \<Rightarrow> error + ExchangeJobInfoResponse" where
  "after_loop pb targetParty response =
     (case Status response of
        None \<Rightarrow> Inl (ErrResponse targetParty)
      | Some st \<Rightarrow>
          if Code st = Code_DATA_INCONSISTENCY pb then Inr response
          else Inl (ExchangeFailed targetParty (Code st) (Message st)))"

definition ExchangeJobInfo ::
  "pb_Codes \<Rightarrow> Session \<Rightarrow> InterStub \<Rightarrow> string \<Rightarrow>
   (error + ExchangeJobInfoResponse) Ran" where
  "ExchangeJobInfo pb s stub targetParty =
     (case exchange_request s targetParty of
        Inl e \<Rightarrow> \<lparr>result = Inl e, attempts = 0, sleeps = 0\<rparr>
      | Inr req \<Rightarrow>
          (case GetBrokerUrlByParty (PartyMgr (App s)) targetParty of
             Inl err \<Rightarrow>
               \<lparr>result = Inl (Wrapped ''ExchangeJobInfoStub'' err), attempts = 0, sleeps = 0\<rparr>
           | Inr url \<Rightarrow>
               (let ran = exchange_loop pb (ExchangeJobInfoRetryTimes (Conf (App s))) stub url req 0
                            \<lparr>Status = None, ExpectedServerChecksum = None\<rparr> 0
                in case result ran of
                     Returned r \<Rightarrow>
                       \<lparr>result = r, attempts = attempts ran, sleeps = sleeps ran\<rparr>
                   | LeftLoop response \<Rightarrow>
                       \<lparr>result = after_loop pb targetParty response,
                        attempts = attempts ran, sleeps = sleeps ran\<rparr>)))"


subsection \<open>SHA-256\<close>

text \<open>
  \<^verbatim>\<open>crypto/sha256\<close> of the Go library, after FIPS 180-4. A 32-bit word is a natural
  number below \<open>2 ^ 32\<close>, with the wrap-around of the addition written out. A hasher
  made by \<^verbatim>\<open>sha256.New()\<close> collects the bytes of its \<^verbatim>\<open>Write\<close> calls;
  \<^verbatim>\<open>Sum(nil)\<close> is \<open>sha256\<close> of their concatenation.
\<close>

definition add32 :: "nat \<Rightarrow> nat \<Rightarrow> nat" where
  "add32 a b = (a + b) mod 4294967296"

definition rotr :: "nat \<Rightarrow> nat \<Rightarrow> nat" where
  "rotr n x = x div 2 ^ n + (x mod 2 ^ n) * 2 ^ (32 - n)"

definition Ch :: "nat \<Rightarrow> nat \<Rightarrow> nat \<Rightarrow> nat" where
  "Ch x y z = (x AND y) XOR ((4294967295 - x) AND z)"

definition Maj :: "nat \<Rightarrow> nat \<Rightarrow> nat \<Rightarrow> nat" where
  "Maj x y z = (x AND y) XOR (x AND z) XOR (y AND z)"

definition bsig0 :: "nat \<Rightarrow> nat" where
  "bsig0 x = rotr 2 x XOR rotr 13 x XOR rotr 22 x"

definition bsig1 :: "nat \<Rightarrow> nat" where
  "bsig1 x = rotr 6 x XOR rotr 11 x XOR rotr 25 x"

definition ssig0 :: "nat \<Rightarrow> nat" where
  "ssig0 x = rotr 7 x XOR rotr 18 x XOR x div 2 ^ 3"

definition ssig1 :: "nat \<Rightarrow> nat" where
  "ssig1 x = rotr 17 x XOR rotr 19 x XOR x div 2 ^ 10"

text \<open>The round constants and the initial hash value, in decimal.\<close>

definition K256 :: "nat list" where
  "K256 =
    [1116352408, 1899447441, 3049323471, 3921009573, 961987163, 1508970993,
     2453635748, 2870763221, 3624381080, 310598401, 607225278, 1426881987,
     1925078388, 2162078206, 2614888103, 3248222580, 3835390401, 4022224774,
     264347078, 604807628, 770255983, 1249150122, 1555081692, 1996064986,
     2554220882, 2821834349, 2952996808, 3210313671, 3336571891, 3584528711,
     113926993, 338241895, 666307205, 773529912, 1294757372, 1396182291,
     1695183700, 1986661051, 2177026350, 2456956037, 2730485921, 2820302411,
     3259730800, 3345764771, 3516065817, 3600352804, 4094571909, 275423344,
     430227734, 506948616, 659060556, 883997877, 958139571, 1322822218,
     1537002063, 1747873779, 1955562222, 2024104815, 2227730452, 2361852424,
     2428436474, 2756734187, 3204031479, 3329325298]"

type_synonym sha_state = "nat \<times> nat \<times> nat \<times> nat \<times> nat \<times> nat \<times> nat \<times> nat"

definition H0 :: sha_state where
  "H0 = (1779033703, 3144134277, 1013904242, 2773480762,
         1359893119, 2600822924, 528734635, 1541459225)"

definition T1 :: "nat \<Rightarrow> nat \<Rightarrow> nat \<Rightarrow> nat \<Rightarrow> nat \<Rightarrow> nat \<Rightarrow> nat" where
  "T1 h e f g k w0 = add32 (add32 (add32 (add32 h (bsig1 e)) (Ch e f g)) k) w0"

definition T2 :: "nat \<Rightarrow> nat \<Rightarrow> nat \<Rightarrow> nat" where
  "T2 a b c = add32 (bsig0 a) (Maj a b c)"

text \<open>One round on the working variables, with round constant \<open>k\<close> and schedule word \<open>w0\<close>.\<close>

fun step :: "nat \<Rightarrow> nat \<Rightarrow> sha_state \<Rightarrow> sha_state" where
  "step k w0 (a, b, c, d, e, f, g, h) =
     (add32 (T1 h e f g k w0) (T2 a b c), a, b, c, add32 d (T1 h e f g k w0), e, f, g)"

text \<open>
  The message schedule as a window of the sixteen latest words: the head is the word of
  the current round, and the word sixteen rounds ahead is appended.
\<close>

definition next_w :: "nat list \<Rightarrow> nat list" where
  "next_w w = tl w @ [add32 (add32 (add32 (ssig1 (w ! 14)) (w ! 9)) (ssig0 (w ! 1))) (w ! 0)]"

fun rounds :: "nat list \<Rightarrow> nat list \<Rightarrow> sha_state \<Rightarrow> sha_state" where
  "rounds [] w s = s"
| "rounds (k # ks) w s = rounds ks (next_w w) (step k (w ! 0) s)"

fun add_state :: "sha_state \<Rightarrow> sha_state \<Rightarrow> sha_state" where
  "add_state (a, b, c, d, e, f, g, h) (a', b', c', d', e', f', g', h') =
     (add32 a a', add32 b b', add32 c c', add32 d d',
      add32 e e', add32 f f', add32 g g', add32 h h')"

text \<open>The sixteen big-endian words of a 64-byte block.\<close>

fun be32s :: "nat list \<Rightarrow> nat list" where
  "be32s (b0 # b1 # b2 # b3 # bs) = (((b0 * 256 + b1) * 256 + b2) * 256 + b3) # be32s bs"
| "be32s bs = []"

definition compress :: "sha_state \<Rightarrow> nat list \<Rightarrow> sha_state" where
  "compress hs block = add_state hs (rounds K256 (be32s block) hs)"

function blocks :: "sha_state \<Rightarrow> nat list \<Rightarrow> sha_state" where
  "blocks hs p = (if length p < 64 then hs else blocks (compress hs (take 64 p)) (drop 64 p))"
  by pat_completeness auto
termination
  by (relation "measure (\<lambda>(hs, p). length p)") auto

declare blocks.simps [simp del]

definition be_bytes4 :: "nat \<Rightarrow> nat list" where
  "be_bytes4 x = [x div 16777216 mod 256, x div 65536 mod 256, x div 256 mod 256, x mod 256]"

definition be_bytes8 :: "nat \<Rightarrow> nat list" where
  "be_bytes8 x = be_bytes4 (x div 4294967296) @ be_bytes4 (x mod 4294967296)"

text \<open>Padding: the byte 0x80, zeros up to 56 modulo 64, and the length in bits on 8 bytes.\<close>

definition pad :: "nat list \<Rightarrow> nat list" where
  "pad m = m @ [128] @ replicate ((119 - length m mod 64) mod 64) 0 @ be_bytes8 (8 * length m)"

fun digest :: "sha_state \<Rightarrow> bytes" where
  "digest (a, b, c, d, e, f, g, h) =
     be_bytes4 a @ be_bytes4 b @ be_bytes4 c @ be_bytes4 d @
     be_bytes4 e @ be_bytes4 f @ be_bytes4 g @ be_bytes4 h"

definition sha256 :: "string \<Rightarrow> bytes" where
  "sha256 s = digest (blocks H0 (pad (map of_char s)))"

subsection \<open>The runner\<close>

text \<open>
  \<^verbatim>\<open>core.DbTable\<close>, the table and column infos of package \<^verbatim>\<open>model\<close> (a
  name is the string its \<^verbatim>\<open>String()\<close> gives), the column control entries of the
  security configuration, and \<^verbatim>\<open>translator.EnginesInfo\<close>.
\<close>

record DbTable =
  dbName :: string
  tableName :: string
  dbType :: int

record ColumnInfo =
  ID :: int
  Name :: string
  Offset :: int
  DefaultValue :: string
  FieldType :: string

record TableInfo =
  ID :: int
  TableId :: string
  Name :: string
  Columns :: "ColumnInfo list"

type_synonym InfoSchema = "(string \<times> TableInfo list) list"

record ColumnControl =
  PartyCode :: string
  Visibility :: "32 word"
  DatabaseName :: string
  TableName :: string
  ColumnName :: string

record EnginesInfo =
  partyInfo :: "Participant list"
  partyToTables :: "string \<rightharpoonup> DbTable list"
  tableToRefs :: "DbTable \<rightharpoonup> DbTable"

record QueryRunner =
  info :: "EnginesInfo option"
  infoschema :: "InfoSchema option"
  ccls :: "ColumnControl list"
  tables :: "TableMeta list"
  prepareAgain :: bool

text \<open>
  Functions of other packages that the runner calls and whose code is not part of the two
  files; they are taken as given. \<^verbatim>\<open>Visibility_value\<close> is the generated map from
  names to enum values, read with Go's map lookup (0 for a missing name).
\<close>

record Externals =
  DbTable_String :: "DbTable \<Rightarrow> string"
  NewDbTableFromString :: "string \<Rightarrow> error + DbTable"
  ParseDBType :: "string \<Rightarrow> error + int"
  TableByName :: "InfoSchema \<Rightarrow> string \<Rightarrow> string \<Rightarrow> error + TableInfo"
  GetTypeDesc :: "ColumnInfo \<Rightarrow> string"
  Visibility_String :: "32 word \<Rightarrow> string"
  Visibility_value :: "string \<Rightarrow> 32 word"
  ToUpper :: "string \<Rightarrow> string"
  ToLower :: "string \<Rightarrow> string"
  TypeDefaultValue :: "string \<Rightarrow> error + string"
  TypeConversion :: "string \<Rightarrow> error + string"
  Sprint :: "int \<Rightarrow> string"

definition Clear :: "QueryRunner \<Rightarrow> QueryRunner" where
  "Clear r = r\<lparr>info := None, infoschema := None, ccls := []\<rparr>"

definition SetPrepareAgain :: "QueryRunner \<Rightarrow> QueryRunner" where
  "SetPrepareAgain r = r\<lparr>prepareAgain := True\<rparr>"

subsection \<open>\<^verbatim>\<open>CreateChecksum\<close>\<close>

text \<open>
  \<^verbatim>\<open>sort.Slice(xs, less)\<close> with \<open>less i j\<close> comparing a string key: the model is
  the stable insertion sort \<open>sort_key\<close> on the byte order of strings. The library
  function is an insertion sort on slices of up to 12 elements; on longer ones it is not
  stable, and agrees with \<open>sort_key\<close> when no two different elements have the same key.
\<close>

definition GetTablesByParty :: "EnginesInfo \<Rightarrow> string \<Rightarrow> DbTable list" where
  "GetTablesByParty e p = (case partyToTables e p of None \<Rightarrow> [] | Some ts \<Rightarrow> ts)"

text \<open>The key of the third sort: \<^verbatim>\<open>strings.Join\<close> of table, column and party with a space.\<close>

definition ccl_key :: "ColumnControl \<Rightarrow> string" where
  "ccl_key c = TableName c @ '' '' @ ColumnName c @ '' '' @ ColumnControl.PartyCode c"

text \<open>
  What the first hasher reads of a table's columns: the name and the type description of
  each, in the order of the table info.
\<close>

definition hashed_columns :: "Externals \<Rightarrow> TableInfo \<Rightarrow> (string \<times> string) list" where
  "hashed_columns ext ti =
     map (\<lambda>col. (ColumnInfo.Name col, GetTypeDesc ext col)) (TableInfo.Columns ti)"

definition columns_written :: "Externals \<Rightarrow> ColumnInfo list \<Rightarrow> string" where
  "columns_written ext columnInfos =
     concat (map (\<lambda>col. ColumnInfo.Name col @ GetTypeDesc ext col)
       (sort_key ColumnInfo.Name columnInfos))"

definition cclsForP :: "ColumnControl list \<Rightarrow> DbTable \<Rightarrow> ColumnControl list" where
  "cclsForP cs t =
     filter (\<lambda>ccl. TableName ccl = tableName t \<and> DatabaseName ccl = dbName t) cs"

definition ccls_written :: "Externals \<Rightarrow> ColumnControl list \<Rightarrow> string" where
  "ccls_written ext cs =
     concat (map (\<lambda>ccl. TableName ccl @ ColumnName ccl @ Visibility_String ext (Visibility ccl))
       (sort_key ccl_key cs))"

text \<open>
  The loop over the sorted tables of one party. The state is what has been written to
  \<^verbatim>\<open>tableSchemaCrypt\<close> and to \<^verbatim>\<open>cclCrypt\<close> so far; a failing
  \<^verbatim>\<open>TableByName\<close> ends the whole function with its error.
\<close>

fun write_tables ::
  "Externals \<Rightarrow> InfoSchema option \<Rightarrow> ColumnControl list \<Rightarrow> DbTable list \<Rightarrow>
   string \<times> string \<Rightarrow> error + string \<times> string" where
  "write_tables ext isc cs [] written = Inr written"
| "write_tables ext isc cs (t # ts) (tableSchemaCrypt, cclCrypt) =
     (case isc of
        None \<Rightarrow> Inl NilPointerPanic
      | Some schema \<Rightarrow>
          (case TableByName ext schema (dbName t) (tableName t) of
             Inl err \<Rightarrow> Inl err
           | Inr tableSchema \<Rightarrow>
               write_tables ext isc cs ts
                 (tableSchemaCrypt @ DbTable_String ext t @
                    columns_written ext (TableInfo.Columns tableSchema),
                  cclCrypt @ ccls_written ext (cclsForP cs t))))"

text \<open>One round of the loop over the data parties: the checksum of party \<open>p\<close>.\<close>

definition checksum_of_party ::
  "Externals \<Rightarrow> EnginesInfo \<Rightarrow> InfoSchema option \<Rightarrow> ColumnControl list \<Rightarrow> string \<Rightarrow>
   error + Checksum" where
  "checksum_of_party ext e isc cs p =
     (case write_tables ext isc cs (sort_key (DbTable_String ext) (GetTablesByParty e p)) ([], []) of
        Inl err \<Rightarrow> Inl err
      | Inr (tableSchemaCrypt, cclCrypt) \<Rightarrow>
          Inr \<lparr>TableSchema = sha256 tableSchemaCrypt, CCL = sha256 cclCrypt\<rparr>)"

fun checksum_loop ::
  "Externals \<Rightarrow> EnginesInfo \<Rightarrow> InfoSchema option \<Rightarrow> ColumnControl list \<Rightarrow> string list \<Rightarrow>
   (string \<rightharpoonup> Checksum) \<Rightarrow> error + (string \<rightharpoonup> Checksum)" where
  "checksum_loop ext e isc cs [] checksumMap = Inr checksumMap"
| "checksum_loop ext e isc cs (p # ps) checksumMap =
     (case checksum_of_party ext e isc cs p of
        Inl err \<Rightarrow> Inl err
      | Inr c \<Rightarrow> checksum_loop ext e isc cs ps (checksumMap(p \<mapsto> c)))"

text \<open>
  \<^verbatim>\<open>CreateChecksum\<close>. The runner must have been prepared: with a data party to
  hash, a nil \<^verbatim>\<open>r.info\<close> is dereferenced, and with a table to hash a nil
  \<^verbatim>\<open>r.is\<close> is, and Go panics.
\<close>

definition CreateChecksum ::
  "Externals \<Rightarrow> Session \<Rightarrow> QueryRunner \<Rightarrow> error + (string \<rightharpoonup> Checksum)" where
  "CreateChecksum ext s r =
     (if DataParties (ExecuteInfo s) = [] then Inr Map.empty
      else case info r of
        None \<Rightarrow> Inl NilPointerPanic
      | Some e \<Rightarrow>
          checksum_loop ext e (infoschema r) (ccls r) (DataParties (ExecuteInfo s)) Map.empty)"

subsection \<open>\<^verbatim>\<open>prepareData\<close> and \<^verbatim>\<open>Prepare\<close>\<close>

text \<open>
  \<^verbatim>\<open>core.NewDbTable\<close> makes a table of a database name and a table name.
\<close>

definition NewDbTable :: "string \<Rightarrow> string \<Rightarrow> DbTable" where
  "NewDbTable db t = \<lparr>dbName = db, tableName = t, dbType = 0\<rparr>"

text \<open>
  Modelled from the spec: \<^verbatim>\<open>sliceutil.SliceDeDup\<close> is not part of the two files.
  The spec has the parties deduplicated and represented as a sorted set, and the comment
  at the call says it sorts the parties and compacts them: the sorted list without
  adjacent duplicates.
\<close>

definition SliceDeDup :: "string list \<Rightarrow> string list" where
  "SliceDeDup xs = remdups_adj (sort xs)"

text \<open>
  Modelled from the spec: \<^verbatim>\<open>sliceutil.Subtraction\<close> is not part of the two files.
  The spec asks every other project member, the party list minus self.
\<close>

definition Subtraction :: "string list \<Rightarrow> string list \<Rightarrow> string list" where
  "Subtraction xs ys = filter (\<lambda>x. x \<notin> set ys) xs"

text \<open>
  What a call of \<^verbatim>\<open>prepareData\<close> or \<^verbatim>\<open>Prepare\<close> leaves: the three named
  results, the runner, and the calls of \<^verbatim>\<open>AskProjectInfoFromParties\<close> it made
  (the tables asked for and the parties asked; the error of that call is only logged).
\<close>

record PrepareResult =
  dataParties :: "string list"
  workParties :: "string list"
  err :: "error option"
  runner :: QueryRunner
  asked :: "(string list \<times> string list) list"

text \<open>
  Every \<^verbatim>\<open>return\<close> of \<^verbatim>\<open>prepareData\<close> runs the deferred
  \<^verbatim>\<open>err = txn.Finish(err)\<close> on the transaction that is current.
\<close>

definition returning ::
  "Session \<Rightarrow> nat \<Rightarrow> string list \<Rightarrow> string list \<Rightarrow> error option \<Rightarrow> QueryRunner \<Rightarrow>
   (string list \<times> string list) list \<Rightarrow> PrepareResult" where
  "returning s txn dps wps e r asks =
     \<lparr>dataParties = dps, workParties = wps, err = Finish (MetaMgr (App s)) txn e,
      runner = r, asked = asks\<rparr>"

text \<open>
  The first half, up to the resolved tables: either \<^verbatim>\<open>prepareData\<close> returns, or
  it goes on with the current transaction, the runner and the calls made. The result of
  \<^verbatim>\<open>txn.Finish(nil)\<close> on the old transaction is dropped by the code.
\<close>

definition resolve_tables ::
  "Session \<Rightarrow> QueryRunner \<Rightarrow> string list \<Rightarrow>
   PrepareResult + nat \<times> QueryRunner \<times> (string list \<times> string list) list" where
  "resolve_tables s r usedTableNames =
     (let txn = MetaMgr (App s); projectID = ExecutionInfo.ProjectID (ExecuteInfo s)
      in case GetTableMetasByTableNames txn 0 projectID usedTableNames of
        (tbls, notFoundTables, e) \<Rightarrow>
          (let r1 = r\<lparr>tables := tbls\<rparr>
           in case e of
             Some e' \<Rightarrow> Inl (returning s 0 [] [] (Some e') r1 [])
           | None \<Rightarrow>
               if notFoundTables \<noteq> [] \<and> \<not> prepareAgain r then
                 (case GetProjectMembers txn 0 projectID of
                    Inl e' \<Rightarrow> Inl (returning s 0 [] [] (Some e') r1 [])
                  | Inr members \<Rightarrow>
                      (let asks = [(notFoundTables,
                                    Subtraction members [Config.PartyCode (Conf (App s))])]
                       in case GetTableMetasByTableNames txn 1 projectID usedTableNames of
                         (tbls2, notFoundTables2, e2) \<Rightarrow>
                           (let r2 = r1\<lparr>tables := tbls2\<rparr>
                            in case e2 of
                              Some e' \<Rightarrow> Inl (returning s 1 [] [] (Some e') r2 asks)
                            | None \<Rightarrow>
                                if notFoundTables2 \<noteq> [] then
                                  Inl (returning s 1 [] []
                                         (Some (TableNotFound notFoundTables2)) r2 asks)
                                else Inr (1, r2, asks))))
               else Inr (0, r1, [])))"

text \<open>The loop over \<^verbatim>\<open>r.tables\<close>: owners, tables by party, and references.\<close>

fun tables_loop ::
  "Externals \<Rightarrow> TableMeta list \<Rightarrow>
   string list \<times> (string \<rightharpoonup> DbTable list) \<times> (DbTable \<rightharpoonup> DbTable) \<Rightarrow>
   error + string list \<times> (string \<rightharpoonup> DbTable list) \<times> (DbTable \<rightharpoonup> DbTable)" where
  "tables_loop ext [] acc = Inr acc"
| "tables_loop ext (t # ts) (parties, party2Tables, tableToRefs') =
     (let owner = Owner (Table t);
          p2t = (case party2Tables owner of
                   None \<Rightarrow> party2Tables(owner \<mapsto> [])
                 | Some _ \<Rightarrow> party2Tables);
          dbTable = NewDbTable (Table.ProjectID (Table t)) (Table.TableName (Table t));
          p2t' = p2t(owner \<mapsto> (case p2t owner of None \<Rightarrow> [] | Some l \<Rightarrow> l) @ [dbTable])
      in case NewDbTableFromString ext (RefTable (Table t)) of
        Inl e \<Rightarrow> Inl e
      | Inr refDbTable \<Rightarrow>
          (case ParseDBType ext (DBType (Table t)) of
             Inl e \<Rightarrow> Inl e
           | Inr dbType' \<Rightarrow>
               tables_loop ext ts
                 (parties @ [owner], p2t',
                  tableToRefs'(dbTable \<mapsto> refDbTable\<lparr>dbType := dbType'\<rparr>))))"

definition to_ccl :: "Externals \<Rightarrow> ColumnPriv \<Rightarrow> ColumnControl" where
  "to_ccl ext columnPriv =
     \<lparr>ColumnControl.PartyCode = DestParty columnPriv,
      Visibility = Visibility_value ext (ToUpper ext (Priv columnPriv)),
      DatabaseName = ColumnPriv.ProjectID columnPriv,
      TableName = ColumnPriv.TableName columnPriv,
      ColumnName = ColumnPriv.ColumnName columnPriv\<rparr>"

text \<open>The second half: parties, engines info and column control list.\<close>

definition derive_parties ::
  "Externals \<Rightarrow> Session \<Rightarrow> string list \<Rightarrow> nat \<Rightarrow> QueryRunner \<Rightarrow>
   (string list \<times> string list) list \<Rightarrow> PrepareResult" where
  "derive_parties ext s usedTableNames txn r asks =
     (case tables_loop ext (tables r) ([], Map.empty, Map.empty) of
        Inl e \<Rightarrow> returning s txn [] [] (Some e) r asks
      | Inr (parties, party2Tables, tableToRefs') \<Rightarrow>
          (let dps = SliceDeDup parties;
               wps = SliceDeDup (dps @ [Issuer (ExecuteInfo s)])
           in case GetPartyInfoByParties (PartyMgr (App s)) wps of
             Inl e \<Rightarrow> returning s txn dps wps (Some e) r asks
           | Inr partyInfo' \<Rightarrow>
               (let r1 = r\<lparr>info := Some \<lparr>partyInfo = partyInfo',
                            partyToTables = party2Tables, tableToRefs = tableToRefs'\<rparr>\<rparr>
                in case ListColumnConstraints (MetaMgr (App s)) txn
                          (ExecutionInfo.ProjectID (ExecuteInfo s)) usedTableNames wps of
                  (columnPrivs, e) \<Rightarrow>
                    returning s txn dps wps e
                      (r1\<lparr>ccls := ccls r1 @ map (to_ccl ext) columnPrivs\<rparr>) asks)))"

definition prepareData :: "Externals \<Rightarrow> Session \<Rightarrow> QueryRunner \<Rightarrow> string list \<Rightarrow> PrepareResult" where
  "prepareData ext s r usedTableNames =
     (case resolve_tables s r usedTableNames of
        Inl res \<Rightarrow> res
      | Inr (txn, r', asks) \<Rightarrow> derive_parties ext s usedTableNames txn r' asks)"

text \<open>\<^verbatim>\<open>CreateInfoSchema\<close>: the two nested loops, each with its index.\<close>

fun column_infos :: "Externals \<Rightarrow> Column list \<Rightarrow> int \<Rightarrow> error + ColumnInfo list" where
  "column_infos ext [] i = Inr []"
| "column_infos ext (col # cols) i =
     (let colTyp = ToLower ext (DType col)
      in case TypeDefaultValue ext colTyp of
        Inl e \<Rightarrow> Inl e
      | Inr defaultVal \<Rightarrow>
          (case TypeConversion ext colTyp of
             Inl e \<Rightarrow> Inl e
           | Inr fieldTp \<Rightarrow>
               (case column_infos ext cols (i + 1) of
                  Inl e \<Rightarrow> Inl e
                | Inr colInfos \<Rightarrow>
                    Inr (\<lparr>ColumnInfo.ID = i, Name = Column.ColumnName col, Offset = i,
                          DefaultValue = defaultVal, FieldType = fieldTp\<rparr> # colInfos))))"

fun table_infos :: "Externals \<Rightarrow> TableMeta list \<Rightarrow> int \<Rightarrow> error + TableInfo list" where
  "table_infos ext [] i = Inr []"
| "table_infos ext (tbl # tbls) i =
     (case column_infos ext (TableMeta.Columns tbl) 0 of
        Inl e \<Rightarrow> Inl e
      | Inr colInfos \<Rightarrow>
          (case table_infos ext tbls (i + 1) of
             Inl e \<Rightarrow> Inl e
           | Inr tableInfos \<Rightarrow>
               Inr (\<lparr>TableInfo.ID = i, TableId = Sprint ext i,
                     Name = Table.TableName (Table tbl), Columns = colInfos\<rparr> # tableInfos)))"

definition CreateInfoSchema :: "Externals \<Rightarrow> Session \<Rightarrow> TableMeta list \<Rightarrow> error + InfoSchema" where
  "CreateInfoSchema ext s tbls =
     (case table_infos ext tbls 0 of
        Inl e \<Rightarrow> Inl e
      | Inr tableInfos \<Rightarrow> Inr [(ExecutionInfo.ProjectID (ExecuteInfo s), tableInfos)])"

definition GetTableName :: "DbTable \<Rightarrow> string" where
  "GetTableName t = tableName t"

definition Prepare :: "Externals \<Rightarrow> Session \<Rightarrow> QueryRunner \<Rightarrow> DbTable list \<Rightarrow> PrepareResult" where
  "Prepare ext s r usedTables =
     (let res = prepareData ext s (Clear r) (map GetTableName usedTables)
      in case err res of
        Some e \<Rightarrow> res
      | None \<Rightarrow>
          (case CreateInfoSchema ext s (tables (runner res)) of
             Inl e \<Rightarrow> res\<lparr>err := Some e\<rparr>
           | Inr isc \<Rightarrow> res\<lparr>runner := (runner res)\<lparr>infoschema := Some isc\<rparr>\<rparr>))"

subsection \<open>\<^verbatim>\<open>CreateExecutor\<close>\<close>

text \<open>
  The compiled plan as the function reads it: the codes of \<^verbatim>\<open>plan.Parties\<close>, the
  sub-graphs by party, the runtime configuration, and the names of the columns of
  \<^verbatim>\<open>plan.GetSchema().GetColumns()\<close> (a nil schema has no columns).
\<close>

record CompiledPlan =
  Parties :: "string list"
  SubGraphs :: "string \<rightharpoonup> string"
  SpuRuntimeConf :: string
  Schema :: "string list option"

definition GetColumns :: "string list option \<Rightarrow> string list" where
  "GetColumns schema = (case schema of None \<Rightarrow> [] | Some cols \<Rightarrow> cols)"

record SessionStartParams_Party =
  Code :: string
  Name :: string
  Rank :: "32 word"
  Host :: string
  PublicKey :: string

record SessionStartParams =
  PartyCode :: string
  SessionId :: string
  SpuRuntimeCfg :: string
  Parties :: "SessionStartParams_Party list"

record RunExecutionPlanRequest =
  SessionParams :: SessionStartParams
  Graph :: string
  Async :: bool
  DebugOpts :: string

record EngineStub =
  stubSessionId :: string
  stubIntraProtocol :: string
  stubCallBackHost :: string
  stubCallBackPath :: string
  stubEngineClient :: string
  stubEngineProtocol :: string
  stubContentType :: string
  stubPartyInfo :: "Participant list"

record Executor =
  PlanReqs :: "string \<rightharpoonup> RunExecutionPlanRequest"
  OutputNames :: "string list"
  EngineStub :: EngineStub
  ExecutorSessionId :: string
  PartyInfo :: "Participant list"

text \<open>
  Modelled from the spec: \<^verbatim>\<open>executor.NewEngineStub\<close> and
  \<^verbatim>\<open>executor.NewExecutor\<close> are not part of the two files. The spec has the
  dispatcher return the request map keyed by the own party code alongside an
  engine-callback stub carrying the session id, protocol, callback path and party roster:
  the executor holds what it is constructed from, the output names among it
  (\<^verbatim>\<open>Execute\<close> reads them back as \<^verbatim>\<open>executor.OutputNames\<close>).
\<close>

definition NewExecutor ::
  "(string \<rightharpoonup> RunExecutionPlanRequest) \<Rightarrow> string list \<Rightarrow> EngineStub \<Rightarrow> string \<Rightarrow>
   Participant list \<Rightarrow> error + Executor" where
  "NewExecutor planReqs outputNames engineStub jobId partyInfo' =
     Inr \<lparr>PlanReqs = planReqs, OutputNames = outputNames, EngineStub = engineStub,
          ExecutorSessionId = jobId, PartyInfo = partyInfo'\<rparr>"

text \<open>The loop over \<^verbatim>\<open>plan.Parties\<close>, with its index as the rank.\<close>

fun start_parties :: "Session \<Rightarrow> string list \<Rightarrow> nat \<Rightarrow> error + SessionStartParams_Party list" where
  "start_parties s [] i = Inr []"
| "start_parties s (p # ps) i =
     (case GetEndpoint s p of
        Inl e \<Rightarrow> Inl e
      | Inr endpoint \<Rightarrow>
          (case GetPubKeyByParty (PartyMgr (App s)) p of
             Inl e \<Rightarrow> Inl e
           | Inr pubKey \<Rightarrow>
               (case start_parties s ps (Suc i) of
                  Inl e \<Rightarrow> Inl e
                | Inr rest \<Rightarrow>
                    Inr (\<lparr>Code = p, Name = p, Rank = of_nat i, Host = endpoint,
                          PublicKey = pubKey\<rparr> # rest))))"

definition CreateExecutor :: "string \<Rightarrow> Session \<Rightarrow> CompiledPlan \<Rightarrow> error + Executor" where
  "CreateExecutor engineCallbackPath s plan =
     (let conf = Conf (App s)
      in case start_parties s (CompiledPlan.Parties plan) 0 of
        Inl e \<Rightarrow> Inl e
      | Inr parties \<Rightarrow>
          (let startParams =
                 \<lparr>SessionStartParams.PartyCode = Config.PartyCode conf,
                  SessionId = JobID (ExecuteInfo s),
                  SpuRuntimeCfg = SpuRuntimeConf plan, Parties = parties\<rparr>
           in case SubGraphs plan (Config.PartyCode conf) of
             None \<Rightarrow> Inl MissingGraph
           | Some myGraph \<Rightarrow>
               (let req = \<lparr>SessionParams = startParams, Graph = myGraph, Async = False,
                           DebugOpts = ExecutionInfo.DebugOpts (ExecuteInfo s)\<rparr>;
                    planReqs = [Config.PartyCode conf \<mapsto> req]
                in case GetPubKeyByParty (PartyMgr (App s)) (Config.PartyCode conf) of
                  Inl e \<Rightarrow> Inl e
                | Inr myPubKey \<Rightarrow>
                    (let myself = \<lparr>Participant.PartyCode = Config.PartyCode conf,
                                    Endpoints = [GetEndpointForSelf s], PubKey = myPubKey\<rparr>;
                         engineStub =
                           \<lparr>stubSessionId = JobID (ExecuteInfo s),
                            stubIntraProtocol = IntraServer_Protocol conf,
                            stubCallBackHost = CallBackHost s,
                            stubCallBackPath = engineCallbackPath,
                            stubEngineClient = EngineClient (ExecuteInfo s),
                            stubEngineProtocol = Engine_Protocol conf,
                            stubContentType = Engine_ContentType conf,
                            stubPartyInfo = [myself]\<rparr>;
                         outputNames =
                           (if IsIssuer s then GetColumns (Schema plan) else [])
                     in NewExecutor planReqs outputNames engineStub (JobID (ExecuteInfo s))
                          [myself]))))"

subsection \<open>The garbage-collection loops\<close>

text \<open>
  What the two loops read of the application: the party code, the
  \<^verbatim>\<open>HOSTNAME\<close> of the environment, and the metadata layer. Every pass of a loop
  waits for one tick; the methods called in a loop take the number of the tick first,
  so the metadata layer may answer differently every time.
\<close>

record GcApp =
  GcPartyCode :: string
  HOSTNAME :: string
  InitGcLockIfNecessary :: "error option"
  HoldGcLock :: "nat \<Rightarrow> string \<Rightarrow> error option"
  ClearExpiredResults :: "nat \<Rightarrow> error option"
  CheckIdCanceled :: "nat \<Rightarrow> string list \<Rightarrow> error + string list"




text \<open>
  The registry of sessions \<^verbatim>\<open>app.Sessions\<close> is a list of ids with their sessions;
  \<^verbatim>\<open>Items()\<close> is its snapshot.

  Modelled from the spec: \<^verbatim>\<open>DeleteSession\<close> is not part of the two files. The spec
  has a canceled session torn down locally, its in-memory state deleted: the entry of
  that id leaves the registry.
\<close>

definition DeleteSession :: "string \<Rightarrow> (string \<times> 'a) list \<Rightarrow> (string \<times> 'a) list" where
  "DeleteSession id' sessions = filter (\<lambda>item. fst item \<noteq> id') sessions"

text \<open>One pass of the loop of \<^verbatim>\<open>SessionGc\<close>, at tick \<open>k\<close>.\<close>

definition SessionGc_tick :: "GcApp \<Rightarrow> nat \<Rightarrow> (string \<times> 'a) list \<Rightarrow> (string \<times> 'a) list" where
  "SessionGc_tick app k sessions =
     (let ids = map fst sessions
      in case CheckIdCanceled app k ids of
        Inl e \<Rightarrow> sessions
      | Inr canceledIds \<Rightarrow> fold DeleteSession canceledIds sessions)"



subsection \<open>A concrete setting for the examples\<close>

text \<open>
  Stand-ins for the collaborators, used where a property is run on a concrete input: a
  table prints as \<^verbatim>\<open>db.table\<close>, the info schema is searched by database and table
  name, a column's type description is its field type, visibility 1 prints as
  \<^verbatim>\<open>PLAINTEXT\<close>, and a number below ten prints as its digit.
\<close>

definition example_Externals :: Externals where
  "example_Externals =
     \<lparr>DbTable_String = (\<lambda>t. dbName t @ ''.'' @ tableName t),
      NewDbTableFromString = (\<lambda>s. Inr \<lparr>dbName = ''ref'', tableName = s, dbType = 0\<rparr>),
      ParseDBType = (\<lambda>s. Inr 1),
      TableByName = (\<lambda>isc db t.
        case map_of isc db of
          None \<Rightarrow> Inl (External ''unknown database'')
        | Some tis \<Rightarrow>
            (case find (\<lambda>ti. TableInfo.Name ti = t) tis of
               None \<Rightarrow> Inl (External ''unknown table'')
             | Some ti \<Rightarrow> Inr ti)),
      GetTypeDesc = FieldType,
      Visibility_String = (\<lambda>v. if v = 1 then ''PLAINTEXT'' else ''UNKNOWN''),
      Visibility_value = (\<lambda>s. if s = ''PLAINTEXT'' then 1 else 0),
      ToUpper = (\<lambda>s. s),
      ToLower = (\<lambda>s. s),
      TypeDefaultValue = (\<lambda>s. Inr ''0''),
      TypeConversion = (\<lambda>s. Inr s),
      Sprint = (\<lambda>i. [char_of (48 + i)])\<rparr>"

text \<open>
  A project \<^verbatim>\<open>p\<close> of two parties: alice, who runs this broker and issues the
  query, owns the tables \<^verbatim>\<open>ta\<close> and \<^verbatim>\<open>tc\<close>; bob owns \<^verbatim>\<open>tb\<close>. The
  metadata store finds a table when it has it, in both transactions alike, and a
  transaction finishes with the error it is given.
\<close>

definition example_store :: "TableMeta list" where
  "example_store =
     [\<lparr>Table = \<lparr>Table.ProjectID = ''p'', TableName = ''ta'', Owner = ''alice'',
                 RefTable = ''db.ta'', DBType = ''mysql''\<rparr>,
       Columns = [\<lparr>Column.ColumnName = ''x y'', DType = ''int''\<rparr>,
                  \<lparr>Column.ColumnName = ''x'', DType = ''string''\<rparr>]\<rparr>,
      \<lparr>Table = \<lparr>Table.ProjectID = ''p'', TableName = ''tb'', Owner = ''bob'',
                 RefTable = ''db.tb'', DBType = ''mysql''\<rparr>,
       Columns = [\<lparr>Column.ColumnName = ''z'', DType = ''int''\<rparr>]\<rparr>,
      \<lparr>Table = \<lparr>Table.ProjectID = ''p'', TableName = ''tc'', Owner = ''alice'',
                 RefTable = ''db.tc'', DBType = ''mysql''\<rparr>,
       Columns = [\<lparr>Column.ColumnName = ''w'', DType = ''int''\<rparr>]\<rparr>]"

definition example_MetaMgr :: MetaMgr where
  "example_MetaMgr =
     \<lparr>GetTableMetasByTableNames = (\<lambda>txn projectID names.
        (filter (\<lambda>m. Table.TableName (Table m) \<in> set names) example_store,
         filter (\<lambda>n. n \<notin> set (map (\<lambda>m. Table.TableName (Table m)) example_store)) names,
         None)),
      GetProjectMembers = (\<lambda>txn projectID. Inr [''alice'', ''bob'']),
      ListColumnConstraints = (\<lambda>txn projectID names parties.
        ([\<lparr>DestParty = ''bob'', Priv = ''PLAINTEXT'', ProjectID = ''p'',
           TableName = ''ta'', ColumnName = ''x''\<rparr>], None)),
      Finish = (\<lambda>txn e. e)\<rparr>"

definition example_Session :: Session where
  "example_Session =
     \<lparr>ExecuteInfo =
        \<lparr>ExecutionInfo.ProjectID = ''p'', JobID = ''job'', Issuer = ''alice'',
         DataParties = [''alice'', ''bob''], DebugOpts = ''none'', EngineClient = ''client''\<rparr>,
      App =
        \<lparr>Conf = \<lparr>Config.PartyCode = ''alice'', ExchangeJobInfoRetryTimes = 3,
                 IntraServer_Protocol = ''http'', Engine_Protocol = ''http'',
                 Engine_ContentType = ''application/json''\<rparr>,
         PartyMgr =
           \<lparr>GetBrokerUrlByParty = (\<lambda>p. Inr (''http://'' @ p)),
            GetPartyInfoByParties = (\<lambda>ps. Inr (map (\<lambda>p.
              \<lparr>Participant.PartyCode = p, Endpoints = [p @ '':8080''], PubKey = ''key''\<rparr>) ps)),
            GetPubKeyByParty = (\<lambda>p. Inr ''key'')\<rparr>,
         MetaMgr = example_MetaMgr\<rparr>,
      GetSelfPartyCode = ''alice'',
      GetLocalChecksum = (\<lambda>p. Inr \<lparr>TableSchema = [], CCL = []\<rparr>),
      GetEndpoint = (\<lambda>p. Inr (p @ '':8080'')),
      GetEndpointForSelf = ''alice:8080'',
      CallBackHost = ''alice:8081'',
      IsIssuer = True,
      AsyncMode = False\<rparr>"

text \<open>A runner that has not prepared anything.\<close>

definition new_runner :: QueryRunner where
  "new_runner = \<lparr>info = None, infoschema = None, ccls = [], tables = [], prepareAgain = False\<rparr>"

text \<open>
  The same project with a third party, \<^verbatim>\<open>y bob\<close>, who owns table \<^verbatim>\<open>td\<close>. The
  session is the example session over a store that holds the given tables and column
  constraints, in the order given: a lookup returns the tables it has among the names
  asked for, and the constraints of the tables and parties asked for.
\<close>

definition store_MetaMgr :: "TableMeta list \<Rightarrow> ColumnPriv list \<Rightarrow> MetaMgr" where
  "store_MetaMgr store privs =
     \<lparr>GetTableMetasByTableNames = (\<lambda>txn projectID names.
        (filter (\<lambda>m. Table.TableName (Table m) \<in> set names) store,
         filter (\<lambda>n. n \<notin> set (map (\<lambda>m. Table.TableName (Table m)) store)) names,
         None)),
      GetProjectMembers = (\<lambda>txn projectID. Inr [''alice'', ''bob'', ''y bob'']),
      ListColumnConstraints = (\<lambda>txn projectID names parties.
        (filter (\<lambda>c. ColumnPriv.TableName c \<in> set names \<and> DestParty c \<in> set parties) privs,
         None)),
      Finish = (\<lambda>txn e. e)\<rparr>"

definition session_on :: "TableMeta list \<Rightarrow> ColumnPriv list \<Rightarrow> Session" where
  "session_on store privs =
     example_Session
       \<lparr>ExecuteInfo := (ExecuteInfo example_Session)\<lparr>DataParties := [''alice'', ''bob'', ''y bob'']\<rparr>,
        App := (App example_Session)\<lparr>MetaMgr := store_MetaMgr store privs\<rparr>\<rparr>"

definition table_td :: TableMeta where
  "table_td =
     \<lparr>Table = \<lparr>Table.ProjectID = ''p'', TableName = ''td'', Owner = ''y bob'',
                RefTable = ''db.td'', DBType = ''mysql''\<rparr>,
      Columns = [\<lparr>Column.ColumnName = ''v'', DType = ''int''\<rparr>]\<rparr>"

definition project_store :: "TableMeta list" where
  "project_store = example_store @ [table_td]"

text \<open>The same tables in another order, the columns of \<^verbatim>\<open>ta\<close> in another order too.\<close>

definition project_store_permuted :: "TableMeta list" where
  "project_store_permuted =
     [table_td,
      \<lparr>Table = \<lparr>Table.ProjectID = ''p'', TableName = ''tc'', Owner = ''alice'',
                 RefTable = ''db.tc'', DBType = ''mysql''\<rparr>,
       Columns = [\<lparr>Column.ColumnName = ''w'', DType = ''int''\<rparr>]\<rparr>,
      \<lparr>Table = \<lparr>Table.ProjectID = ''p'', TableName = ''ta'', Owner = ''alice'',
                 RefTable = ''db.ta'', DBType = ''mysql''\<rparr>,
       Columns = [\<lparr>Column.ColumnName = ''x'', DType = ''string''\<rparr>,
                  \<lparr>Column.ColumnName = ''x y'', DType = ''int''\<rparr>]\<rparr>,
      \<lparr>Table = \<lparr>Table.ProjectID = ''p'', TableName = ''tb'', Owner = ''bob'',
                 RefTable = ''db.tb'', DBType = ''mysql''\<rparr>,
       Columns = [\<lparr>Column.ColumnName = ''z'', DType = ''int''\<rparr>]\<rparr>]"

definition plaintext_for :: "string \<Rightarrow> string \<Rightarrow> string \<Rightarrow> ColumnPriv" where
  "plaintext_for party t c =
     \<lparr>DestParty = party, Priv = ''PLAINTEXT'', ProjectID = ''p'', TableName = t, ColumnName = c\<rparr>"

definition project_privs :: "ColumnPriv list" where
  "project_privs =
     [plaintext_for ''bob'' ''ta'' ''x'', plaintext_for ''bob'' ''ta'' ''x y'',
      plaintext_for ''y bob'' ''tb'' ''z'', plaintext_for ''alice'' ''tb'' ''z'']"

text \<open>
  Two constraints on table \<^verbatim>\<open>ta\<close> that differ in column and party and have the same
  joined key \<^verbatim>\<open>ta x y bob\<close>.
\<close>

definition tied_privs :: "ColumnPriv list" where
  "tied_privs = [plaintext_for ''bob'' ''ta'' ''x y'', plaintext_for ''y bob'' ''ta'' ''x'']"

text \<open>
  A store whose table \<^verbatim>\<open>ta\<close> has two columns of one name and different types, in
  the one order and in the other.
\<close>

definition store_with_ta :: "Column list \<Rightarrow> TableMeta list" where
  "store_with_ta cols =
     [\<lparr>Table = \<lparr>Table.ProjectID = ''p'', TableName = ''ta'', Owner = ''alice'',
                 RefTable = ''db.ta'', DBType = ''mysql''\<rparr>,
       Columns = cols\<rparr>] @ tl project_store"

definition x_int :: Column where
  "x_int = \<lparr>Column.ColumnName = ''x'', DType = ''int''\<rparr>"

definition x_string :: Column where
  "x_string = \<lparr>Column.ColumnName = ''x'', DType = ''string''\<rparr>"

text \<open>The tables a query of the project uses, and the runner after \<^verbatim>\<open>Prepare\<close>.\<close>

definition project_tables :: "DbTable list" where
  "project_tables =
     [NewDbTable ''p'' ''ta'', NewDbTable ''p'' ''tb'', NewDbTable ''p'' ''tc'',
      NewDbTable ''p'' ''td'']"

definition prepared :: "TableMeta list \<Rightarrow> ColumnPriv list \<Rightarrow> QueryRunner" where
  "prepared store privs =
     runner (Prepare example_Externals (session_on store privs) new_runner project_tables)"

text \<open>
  Status codes for the examples, and two peers: one that has its session only at the
  third call, and one whose response carries no status object.
\<close>

definition example_Codes :: pb_Codes where
  "example_Codes = \<lparr>Code_SESSION_NOT_FOUND = 320, Code_DATA_INCONSISTENCY = 340\<rparr>"

definition response_with_code :: "32 word \<Rightarrow> ExchangeJobInfoResponse" where
  "response_with_code c =
     \<lparr>Status = Some \<lparr>pb_Status.Code = c, Message = ''ok''\<rparr>, ExpectedServerChecksum = None\<rparr>"

definition late_peer :: InterStub where
  "late_peer k url req = (if k < 2 then Inr (response_with_code 320) else Inr (response_with_code 0))"

definition peer_without_status :: InterStub where
  "peer_without_status k url req = Inr \<lparr>Status = None, ExpectedServerChecksum = None\<rparr>"

text \<open>
  A compiled plan for alice and bob, with a sub-graph for each of them and two result
  columns, and the same plan with no sub-graph for alice.
\<close>

definition example_plan :: CompiledPlan where
  "example_plan =
     \<lparr>CompiledPlan.Parties = [''alice'', ''bob''],
      SubGraphs = [''alice'' \<mapsto> ''graph of alice'', ''bob'' \<mapsto> ''graph of bob''],
      SpuRuntimeConf = ''semi2k'',
      Schema = Some [''x'', ''z'']\<rparr>"

text \<open>
  An application for the garbage-collection loops: the lock is held at every even tick,
  clearing fails at every fourth tick, and the first session of a snapshot is reported
  canceled at every tick but the first, where the lookup fails. The second application
  fails to initialise its lock.
\<close>

definition example_GcApp :: GcApp where
  "example_GcApp =
     \<lparr>GcPartyCode = ''alice'', HOSTNAME = ''broker-0'',
      InitGcLockIfNecessary = None,
      HoldGcLock = (\<lambda>k owner. if even k then None else Some (External ''lock is held'')),
      ClearExpiredResults = (\<lambda>k. if k mod 4 = 0 then Some (External ''scan failed'') else None),
      CheckIdCanceled = (\<lambda>k ids. if k = 0 then Inl (External ''lookup failed'') else Inr (take 1 ids))\<rparr>"


definition example_sessions :: "(string \<times> Session) list" where
  "example_sessions =
     [(''job 1'', example_Session), (''job 2'', example_Session), (''job 3'', example_Session)]"

section \<open>Properties\<close>

subsection \<open>The retry loop of \<^verbatim>\<open>ExchangeJobInfo\<close>\<close>

lemma exchange_loop_attempts:
  "i \<le> attempts (exchange_loop pb n stub url req i response sl) \<and>
   int (attempts (exchange_loop pb n stub url req i response sl)) \<le> max (int i) n"
proof (induction pb n stub url req i response sl rule: exchange_loop.induct)
  case (1 pb n stub url req i response sl)
  show ?case
    using "1.IH" by (subst (1 2) exchange_loop.simps) (auto split: sum.splits)
qed

lemma exchange_loop_enters:
  assumes "int i < n"
  shows "Suc i \<le> attempts (exchange_loop pb n stub url req i response sl)"
proof (cases "stub i url req")
  case (Inl err)
  with assms show ?thesis by (subst exchange_loop.simps) simp
next
  case (Inr r')
  show ?thesis
  proof (cases "GetCode (GetStatus r') = Code_SESSION_NOT_FOUND pb")
    case True
    with assms Inr show ?thesis
      using exchange_loop_attempts [of "Suc i" pb n stub url req r']
      by (subst exchange_loop.simps) simp
  next
    case False
    with assms Inr show ?thesis by (subst exchange_loop.simps) simp
  qed
qed

lemma exchange_loop_resend:
  "i \<le> k \<Longrightarrow> k < attempts (exchange_loop pb n stub url req i response sl) \<Longrightarrow>
   (Suc k < attempts (exchange_loop pb n stub url req i response sl)) =
   (int (Suc k) < n \<and> (\<exists>r. stub k url req = Inr r \<and>
        GetCode (GetStatus r) = Code_SESSION_NOT_FOUND pb))"
proof (induction pb n stub url req i response sl rule: exchange_loop.induct)
  case (1 pb n stub url req i response sl)
  show ?case
  proof (cases "int i < n")
    case False
    with "1.prems" show ?thesis by (simp add: exchange_loop.simps)
  next
    case lt: True
    show ?thesis
    proof (cases "stub i url req")
      case (Inl err)
      with lt have "attempts (exchange_loop pb n stub url req i response sl) = Suc i"
        by (subst exchange_loop.simps) simp
      moreover from this "1.prems" have "k = i" by simp
      ultimately show ?thesis using Inl by simp
    next
      case (Inr r')
      show ?thesis
      proof (cases "GetCode (GetStatus r') = Code_SESSION_NOT_FOUND pb")
        case False
        with lt Inr have "attempts (exchange_loop pb n stub url req i response sl) = Suc i"
          by (subst exchange_loop.simps) simp
        moreover from this "1.prems" have "k = i" by simp
        ultimately show ?thesis using Inr False by simp
      next
        case snf: True
        let ?rest = "exchange_loop pb n stub url req (Suc i) r' (if int i < n - 1 then Suc sl else sl)"
        have eq: "exchange_loop pb n stub url req i response sl = ?rest"
          using lt Inr snf by (subst exchange_loop.simps) simp
        show ?thesis
        proof (cases "k = i")
          case True
          have "Suc i \<le> attempts ?rest" "int (attempts ?rest) \<le> max (int (Suc i)) n"
            using exchange_loop_attempts [of "Suc i" pb n stub url req r'] by auto
          moreover have "int (Suc i) < n \<Longrightarrow> Suc (Suc i) \<le> attempts ?rest"
            by (rule exchange_loop_enters)
          ultimately show ?thesis using True Inr snf eq by auto
        next
          case False
          with "1.prems" have "Suc i \<le> k" by simp
          with "1.IH" [OF lt Inr snf] "1.prems" eq show ?thesis by simp
        qed
      qed
    qed
  qed
qed

lemma exchange_loop_two_misses:
  assumes "Code_SESSION_NOT_FOUND pb \<noteq> 0"
    and "stub 0 url req = Inr r0" and "GetCode (GetStatus r0) = Code_SESSION_NOT_FOUND pb"
    and "stub 1 url req = Inr r1" and "GetCode (GetStatus r1) = Code_SESSION_NOT_FOUND pb"
    and "stub 2 url req = Inr r2" and "GetCode (GetStatus r2) = 0"
  shows "exchange_loop pb 3 stub url req 0 response 0 =
         \<lparr>result = Returned (Inr r2), attempts = 3, sleeps = 2\<rparr>"
proof -
  have third: "exchange_loop pb 3 stub url req 2 r1 2 =
      \<lparr>result = Returned (Inr r2), attempts = 3, sleeps = 2\<rparr>"
    using assms by (subst exchange_loop.simps) (simp add: eval_nat_numeral)
  have second: "exchange_loop pb 3 stub url req 1 r0 1 = exchange_loop pb 3 stub url req 2 r1 2"
    using assms by (subst exchange_loop.simps) (simp add: eval_nat_numeral)
  have first: "exchange_loop pb 3 stub url req 0 response 0 = exchange_loop pb 3 stub url req 1 r0 1"
    using assms by (subst exchange_loop.simps) simp
  show ?thesis by (simp only: first second third)
qed

lemma ExchangeJobInfo_unfold:
  assumes "exchange_request s targetParty = Inr req"
    and "GetBrokerUrlByParty (PartyMgr (App s)) targetParty = Inr url"
  shows "attempts (ExchangeJobInfo pb s stub targetParty) =
           attempts (exchange_loop pb (ExchangeJobInfoRetryTimes (Conf (App s))) stub url req 0
              \<lparr>Status = None, ExpectedServerChecksum = None\<rparr> 0)"
    and "sleeps (ExchangeJobInfo pb s stub targetParty) =
           sleeps (exchange_loop pb (ExchangeJobInfoRetryTimes (Conf (App s))) stub url req 0
              \<lparr>Status = None, ExpectedServerChecksum = None\<rparr> 0)"
    and "result (ExchangeJobInfo pb s stub targetParty) =
           (case result (exchange_loop pb (ExchangeJobInfoRetryTimes (Conf (App s))) stub url req 0
              \<lparr>Status = None, ExpectedServerChecksum = None\<rparr> 0) of
              Returned r \<Rightarrow> r
            | LeftLoop response \<Rightarrow> after_loop pb targetParty response)"
  using assms by (simp_all add: ExchangeJobInfo_def Let_def split: loop_exit.splits)

text \<open>
  Claim C2. Once the request and the url are built, \<^verbatim>\<open>ExchangeJobInfo\<close> calls the
  stub at most \<^verbatim>\<open>ExchangeJobInfoRetryTimes\<close> times; every call but the first follows
  a response whose status code is \<^verbatim>\<open>SESSION_NOT_FOUND\<close>; an answer that is an error
  or carries any other status is the last call. With three attempts configured, two
  \<^verbatim>\<open>SESSION_NOT_FOUND\<close> responses and then a response of code 0, the caller gets that
  third response and \<^verbatim>\<open>time.Sleep\<close> ran exactly twice.
\<close>

theorem ExchangeJobInfo_retry:
  assumes req: "exchange_request s targetParty = Inr req"
    and url: "GetBrokerUrlByParty (PartyMgr (App s)) targetParty = Inr url"
  shows "int (attempts (ExchangeJobInfo pb s stub targetParty)) \<le> max 0 (ExchangeJobInfoRetryTimes (Conf (App s)))
    \<and> (\<forall>k. Suc k < attempts (ExchangeJobInfo pb s stub targetParty) \<longrightarrow>
          (\<exists>r. stub k url req = Inr r \<and> GetCode (GetStatus r) = Code_SESSION_NOT_FOUND pb))
    \<and> (\<forall>k. k < attempts (ExchangeJobInfo pb s stub targetParty) \<longrightarrow>
          (\<forall>r. stub k url req = Inr r \<longrightarrow> GetCode (GetStatus r) \<noteq> Code_SESSION_NOT_FOUND pb) \<longrightarrow>
          attempts (ExchangeJobInfo pb s stub targetParty) = Suc k)
    \<and> (ExchangeJobInfoRetryTimes (Conf (App s)) = 3 \<and> Code_SESSION_NOT_FOUND pb \<noteq> 0 \<and>
         stub 0 url req = Inr r0 \<and> GetCode (GetStatus r0) = Code_SESSION_NOT_FOUND pb \<and>
         stub 1 url req = Inr r1 \<and> GetCode (GetStatus r1) = Code_SESSION_NOT_FOUND pb \<and>
         stub 2 url req = Inr r2 \<and> GetCode (GetStatus r2) = 0 \<longrightarrow>
         result (ExchangeJobInfo pb s stub targetParty) = Inr r2 \<and>
         sleeps (ExchangeJobInfo pb s stub targetParty) = 2 \<and>
         attempts (ExchangeJobInfo pb s stub targetParty) = 3)"
proof -
  let ?n = "ExchangeJobInfoRetryTimes (Conf (App s))"
  let ?loop = "exchange_loop pb ?n stub url req 0 \<lparr>Status = None, ExpectedServerChecksum = None\<rparr> 0"
  note unfold = ExchangeJobInfo_unfold [OF req url, of pb stub]
  have bound: "int (attempts ?loop) \<le> max 0 ?n"
    using exchange_loop_attempts [of 0 pb ?n stub url req] by simp
  have resend: "(Suc k < attempts ?loop) =
      (int (Suc k) < ?n \<and> (\<exists>r. stub k url req = Inr r \<and>
         GetCode (GetStatus r) = Code_SESSION_NOT_FOUND pb))" if "k < attempts ?loop" for k
    using exchange_loop_resend [of 0 k pb ?n stub url req] that by simp
  have only_after_miss: "\<exists>r. stub k url req = Inr r \<and>
      GetCode (GetStatus r) = Code_SESSION_NOT_FOUND pb" if "Suc k < attempts ?loop" for k
    using resend [of k] that by simp
  have stops: "attempts ?loop = Suc k"
    if "k < attempts ?loop"
      and "\<forall>r. stub k url req = Inr r \<longrightarrow> GetCode (GetStatus r) \<noteq> Code_SESSION_NOT_FOUND pb" for k
    using resend [of k] that by auto
  have scenario: "result (ExchangeJobInfo pb s stub targetParty) = Inr r2 \<and>
      sleeps ?loop = 2 \<and> attempts ?loop = 3"
    if "?n = 3" "Code_SESSION_NOT_FOUND pb \<noteq> 0"
      "stub 0 url req = Inr r0" "GetCode (GetStatus r0) = Code_SESSION_NOT_FOUND pb"
      "stub 1 url req = Inr r1" "GetCode (GetStatus r1) = Code_SESSION_NOT_FOUND pb"
      "stub 2 url req = Inr r2" "GetCode (GetStatus r2) = 0"
    using exchange_loop_two_misses [of pb stub url req r0 r1 r2] that by (simp add: unfold(3))
  show ?thesis
    unfolding unfold(1,2) using bound only_after_miss stops scenario by blast
qed

text \<open>The scenario of claim C2 on the example session, with the peer that is late twice.\<close>

theorem ExchangeJobInfo_retry_witness:
  "result (ExchangeJobInfo example_Codes example_Session late_peer ''bob'') =
     Inr (response_with_code 0) \<and>
   sleeps (ExchangeJobInfo example_Codes example_Session late_peer ''bob'') = 2 \<and>
   attempts (ExchangeJobInfo example_Codes example_Session late_peer ''bob'') = 3"
  using ExchangeJobInfo_retry [of example_Session "''bob''"
      "\<lparr>ProjectId = ''p'', JobId = ''job'', ClientId = ''alice'',
        ServerChecksum = Some \<lparr>TableSchema = [], CCL = []\<rparr>\<rparr>"
      "''http://bob''" example_Codes late_peer
      "response_with_code 320" "response_with_code 320" "response_with_code 0"]
  by (simp add: exchange_request_def example_Session_def example_Codes_def late_peer_def
      response_with_code_def GetCode_def GetStatus_def)

text \<open>
  Claim C3. A response without a status object is not always an error: inside the loop
  the nil-safe getter reads code 0 from it, and the response is returned as a success;
  the check for a nil status after the loop is not reached. Here on the example session,
  with a peer that answers without a status.
\<close>

theorem ExchangeJobInfo_nil_status_is_returned:
  "result (ExchangeJobInfo example_Codes example_Session peer_without_status ''bob'') =
     Inr \<lparr>Status = None, ExpectedServerChecksum = None\<rparr> \<and>
   attempts (ExchangeJobInfo example_Codes example_Session peer_without_status ''bob'') = 1"
  by (simp add: ExchangeJobInfo_def exchange_request_def exchange_loop.simps example_Session_def
      example_Codes_def peer_without_status_def GetCode_def GetStatus_def)


subsection \<open>Order independence of \<^verbatim>\<open>CreateChecksum\<close>\<close>

text \<open>
  Sorting two permutations of one list gives the same list when the key tells the
  elements apart; any sorting function agrees with \<open>sort_key\<close> then.
\<close>

lemma sort_key_mset_inj:
  assumes "mset xs = mset ys" and "inj_on f (set xs)"
  shows "sort_key f xs = sort_key f ys"
proof (rule properties_for_sort_key)
  show "mset (sort_key f ys) = mset xs" using assms by simp
  show "sorted (map f (sort_key f ys))" by simp
  fix k assume "k \<in> set (sort_key f ys)"
  then have k: "k \<in> set xs" using assms(1) by (metis mset_eq_setD set_sort)
  have same: "set ys = set xs" using assms(1) by (metis mset_eq_setD)
  have "filter (\<lambda>x. f k = f x) zs = filter (\<lambda>x. k = x) zs" if "set zs \<subseteq> set xs" for zs
    using that k assms(2) by (intro filter_cong) (auto dest: inj_onD)
  then have "filter (\<lambda>x. f k = f x) (sort_key f ys) = filter (\<lambda>x. k = x) (sort_key f ys)"
    and "filter (\<lambda>x. f k = f x) xs = filter (\<lambda>x. k = x) xs"
    using same by simp_all
  moreover have "filter (\<lambda>x. k = x) (sort_key f ys) = filter (\<lambda>x. k = x) xs"
  proof -
    have "mset (sort_key f ys) = mset xs" using assms by simp
    then have "count (mset (sort_key f ys)) k = count (mset xs) k" by simp
    then show ?thesis
      by (metis replicate_count_mset_eq_filter_eq)
  qed
  ultimately show "filter (\<lambda>x. f k = f x) (sort_key f ys) = filter (\<lambda>x. f k = f x) xs"
    by simp
qed

text \<open>
  Sorting commutes with reading off what is hashed: the columns are sorted by name, and
  the hash reads the name and the type description of each.
\<close>

lemma map_insort_key:
  assumes "\<And>y. h (g y) = k y"
  shows "map g (insort_key k x xs) = insort_key h (g x) (map g xs)"
  by (induction xs) (simp_all add: assms)

lemma map_sort_key:
  assumes "\<And>y. h (g y) = k y"
  shows "map g (sort_key k xs) = sort_key h (map g xs)"
  using assms by (induction xs) (simp_all add: map_insort_key [where h = h and k = k])

lemma columns_written_perm:
  assumes "mset (map (\<lambda>col. (ColumnInfo.Name col, GetTypeDesc ext col)) colsA) =
           mset (map (\<lambda>col. (ColumnInfo.Name col, GetTypeDesc ext col)) colsB)"
    and "inj_on fst (set (map (\<lambda>col. (ColumnInfo.Name col, GetTypeDesc ext col)) colsA))"
  shows "columns_written ext colsA = columns_written ext colsB"
proof -
  let ?g = "\<lambda>col. (ColumnInfo.Name col, GetTypeDesc ext col)"
  have read: "columns_written ext cols =
      concat (map (\<lambda>(n, t). n @ t) (sort_key fst (map ?g cols)))" for cols
  proof -
    have "sort_key fst (map ?g cols) = map ?g (sort_key ColumnInfo.Name cols)"
      by (rule map_sort_key [symmetric]) simp
    then show ?thesis by (simp add: columns_written_def comp_def)
  qed
  from sort_key_mset_inj [OF assms] show ?thesis by (simp add: read)
qed

lemma ccls_written_perm:
  assumes "mset csA = mset csB" and "inj_on ccl_key (set (cclsForP csA t))"
  shows "ccls_written ext (cclsForP csA t) = ccls_written ext (cclsForP csB t)"
proof -
  have "mset (cclsForP csA t) = mset (cclsForP csB t)"
    using assms(1) by (simp add: cclsForP_def)
  from sort_key_mset_inj [OF this assms(2)] show ?thesis
    by (simp add: ccls_written_def)
qed

lemma write_tables_perm:
  assumes "mset csA = mset csB"
    and "\<forall>t\<in>set ts. rel_sum (=) (\<lambda>a b. mset (hashed_columns ext a) = mset (hashed_columns ext b))
           (TableByName ext iA (dbName t) (tableName t)) (TableByName ext iB (dbName t) (tableName t))"
    and "\<forall>t\<in>set ts. \<forall>ti. TableByName ext iA (dbName t) (tableName t) = Inr ti \<longrightarrow>
           inj_on fst (set (hashed_columns ext ti))"
    and "\<forall>t\<in>set ts. inj_on ccl_key (set (cclsForP csA t))"
  shows "write_tables ext (Some iA) csA ts written = write_tables ext (Some iB) csB ts written"
  using assms(2-4)
proof (induction ts arbitrary: written)
  case Nil
  show ?case by simp
next
  case (Cons t ts)
  obtain sw cw where written: "written = (sw, cw)" by (cases written)
  from Cons.prems(1) have rel: "rel_sum (=) (\<lambda>a b. mset (hashed_columns ext a) = mset (hashed_columns ext b))
      (TableByName ext iA (dbName t) (tableName t)) (TableByName ext iB (dbName t) (tableName t))"
    by simp
  show ?case
  proof (cases "TableByName ext iA (dbName t) (tableName t)")
    case (Inl err)
    with rel have "TableByName ext iB (dbName t) (tableName t) = Inl err"
      by (cases "TableByName ext iB (dbName t) (tableName t)") simp_all
    with Inl written show ?thesis by simp
  next
    case (Inr tiA)
    with rel obtain tiB where tiB: "TableByName ext iB (dbName t) (tableName t) = Inr tiB"
      and cols: "mset (hashed_columns ext tiA) = mset (hashed_columns ext tiB)"
      by (cases "TableByName ext iB (dbName t) (tableName t)") simp_all
    from Cons.prems(2) Inr have "inj_on fst (set (hashed_columns ext tiA))" by simp
    with cols have c: "columns_written ext (TableInfo.Columns tiA) = columns_written ext (TableInfo.Columns tiB)"
      by (intro columns_written_perm) (simp_all add: hashed_columns_def)
    from Cons.prems(3) have "inj_on ccl_key (set (cclsForP csA t))" by simp
    with assms(1) have k: "ccls_written ext (cclsForP csA t) = ccls_written ext (cclsForP csB t)"
      by (rule ccls_written_perm)
    have "write_tables ext (Some iA) csA ts w' = write_tables ext (Some iB) csB ts w'" for w'
      using Cons.prems by (intro Cons.IH) simp_all
    with Inr tiB written c k show ?thesis by simp
  qed
qed

lemma checksum_of_party_perm:
  assumes "mset csA = mset csB"
    and "mset (GetTablesByParty eA p) = mset (GetTablesByParty eB p)"
    and "inj_on (DbTable_String ext) (set (GetTablesByParty eA p))"
    and "\<forall>t\<in>set (GetTablesByParty eA p).
           rel_sum (=) (\<lambda>a b. mset (hashed_columns ext a) = mset (hashed_columns ext b))
           (TableByName ext iA (dbName t) (tableName t)) (TableByName ext iB (dbName t) (tableName t))"
    and "\<forall>t\<in>set (GetTablesByParty eA p). \<forall>ti. TableByName ext iA (dbName t) (tableName t) = Inr ti \<longrightarrow>
           inj_on fst (set (hashed_columns ext ti))"
    and "\<forall>t\<in>set (GetTablesByParty eA p). inj_on ccl_key (set (cclsForP csA t))"
  shows "checksum_of_party ext eA (Some iA) csA p = checksum_of_party ext eB (Some iB) csB p"
proof -
  let ?ts = "sort_key (DbTable_String ext) (GetTablesByParty eA p)"
  have sorted_same: "sort_key (DbTable_String ext) (GetTablesByParty eB p) = ?ts"
    using sort_key_mset_inj [OF assms(2,3)] by simp
  have "write_tables ext (Some iA) csA ?ts ([], []) = write_tables ext (Some iB) csB ?ts ([], [])"
    using assms(4-6) by (intro write_tables_perm [OF assms(1)]) simp_all
  with sorted_same show ?thesis by (simp add: checksum_of_party_def)
qed

lemma checksum_loop_perm:
  assumes "\<forall>p\<in>set ps. checksum_of_party ext eA iA csA p = checksum_of_party ext eB iB csB p"
  shows "checksum_loop ext eA iA csA ps m = checksum_loop ext eB iB csB ps m"
  using assms by (induction ps arbitrary: m) (simp_all split: sum.splits)

text \<open>
  Claim C1, amended. Two runners hold the same tables per party, the same column control
  entries, and for every table columns of the same names and type descriptions, each in
  any order (the position of a column, which its id and offset record, is free). If
  among the tables of a party no two different ones print as the same string, no table
  has two columns of one name and different type descriptions, and among the column
  control entries of a table no two different ones have the same joined key
  \<^verbatim>\<open>table column party\<close>, then \<^verbatim>\<open>CreateChecksum\<close> gives the same result on both:
  the same error, or the same pair of fingerprints for every data party.
\<close>

theorem CreateChecksum_order_independent:
  assumes "info rA = Some eA" and "info rB = Some eB"
    and "infoschema rA = Some iA" and "infoschema rB = Some iB"
    and "mset (ccls rA) = mset (ccls rB)"
    and "\<forall>p\<in>set (DataParties (ExecuteInfo s)).
           mset (GetTablesByParty eA p) = mset (GetTablesByParty eB p) \<and>
           inj_on (DbTable_String ext) (set (GetTablesByParty eA p)) \<and>
           (\<forall>t\<in>set (GetTablesByParty eA p).
              rel_sum (=) (\<lambda>a b. mset (hashed_columns ext a) = mset (hashed_columns ext b))
                (TableByName ext iA (dbName t) (tableName t))
                (TableByName ext iB (dbName t) (tableName t)) \<and>
              (\<forall>ti. TableByName ext iA (dbName t) (tableName t) = Inr ti \<longrightarrow>
                 inj_on fst (set (hashed_columns ext ti))) \<and>
              inj_on ccl_key (set (cclsForP (ccls rA) t)))"
  shows "CreateChecksum ext s rA = CreateChecksum ext s rB"
proof -
  have "checksum_of_party ext eA (Some iA) (ccls rA) p = checksum_of_party ext eB (Some iB) (ccls rB) p"
    if "p \<in> set (DataParties (ExecuteInfo s))" for p
    using assms(6) that by (intro checksum_of_party_perm [OF assms(5)]) auto
  then have "checksum_loop ext eA (Some iA) (ccls rA) (DataParties (ExecuteInfo s)) Map.empty =
      checksum_loop ext eB (Some iB) (ccls rB) (DataParties (ExecuteInfo s)) Map.empty"
    by (intro checksum_loop_perm) simp
  with assms(1-4) show ?thesis by (simp add: CreateChecksum_def)
qed


lemmas prepare_eval = Prepare_def prepareData_def resolve_tables_def derive_parties_def
  returning_def Clear_def GetTableName_def NewDbTable_def SetPrepareAgain_def new_runner_def
  example_Session_def example_MetaMgr_def example_store_def example_Externals_def
  CreateInfoSchema_def SliceDeDup_def Subtraction_def to_ccl_def Let_def

lemmas project_eval = prepared_def session_on_def store_MetaMgr_def project_store_def
  project_store_permuted_def table_td_def project_privs_def tied_privs_def plaintext_for_def
  project_tables_def store_with_ta_def x_int_def x_string_def

lemmas checksum_eval = checksum_of_party_def GetTablesByParty_def cclsForP_def ccl_key_def
  columns_written_def ccls_written_def hashed_columns_def

text \<open>
  The project prepared from the store in the one order and in the other satisfies the
  conditions of claim C1 as amended, and the two runners differ.
\<close>

theorem CreateChecksum_order_independent_witness:
  "CreateChecksum example_Externals (session_on project_store project_privs)
     (prepared project_store project_privs) =
   CreateChecksum example_Externals (session_on project_store project_privs)
     (prepared project_store_permuted (rev project_privs)) \<and>
   infoschema (prepared project_store project_privs) \<noteq>
     infoschema (prepared project_store_permuted (rev project_privs)) \<and>
   ccls (prepared project_store project_privs) \<noteq>
     ccls (prepared project_store_permuted (rev project_privs))"
proof (intro conjI)
  show "CreateChecksum example_Externals (session_on project_store project_privs)
     (prepared project_store project_privs) =
   CreateChecksum example_Externals (session_on project_store project_privs)
     (prepared project_store_permuted (rev project_privs))"
    by (rule CreateChecksum_order_independent [where
          eA = "the (info (prepared project_store project_privs))" and
          eB = "the (info (prepared project_store_permuted (rev project_privs)))" and
          iA = "the (infoschema (prepared project_store project_privs))" and
          iB = "the (infoschema (prepared project_store_permuted (rev project_privs)))"])
       (auto simp add: project_eval prepare_eval checksum_eval inj_on_def)
qed (simp_all add: project_eval prepare_eval)


text \<open>The SHA-256 values of the counterexample, computed round by round.\<close>

lemma replicate_numeral: "replicate (numeral k) x = x # replicate (pred_numeral k) x"
  by (simp add: numeral_eq_Suc)

lemmas sha_round_defs = K256_def T1_def T2_def next_w_def bsig0_def bsig1_def ssig0_def
  ssig1_def Ch_def Maj_def rotr_def add32_def

lemma digest_xy_first:
  "sha256 ''tax yPLAINTEXTtaxPLAINTEXT'' =
     [108, 27, 68, 197, 113, 166, 70, 168, 88, 88, 74, 113, 249, 149, 44, 255, 22, 203,
     100, 159, 102, 96, 96, 49, 247, 176, 191, 219, 231, 237, 231, 231]"
proof -
  have padded: "pad (map of_char ''tax yPLAINTEXTtaxPLAINTEXT'') =
     [116, 97, 120, 32, 121, 80, 76, 65, 73, 78, 84, 69, 88, 84, 116, 97, 120, 80, 76,
     65, 73, 78, 84, 69, 88, 84, 128, 0, 0, 0, 0, 0, 0, 0, 0, 0, 0, 0, 0, 0, 0, 0, 0, 0,
     0, 0, 0, 0, 0, 0, 0, 0, 0, 0, 0, 0, 0, 0, 0, 0, 0, 0, 0, 208]"
    by (simp add: pad_def be_bytes8_def be_bytes4_def replicate_numeral)
  have compressed: "compress H0
     [116, 97, 120, 32, 121, 80, 76, 65, 73, 78, 84, 69, 88, 84, 116, 97, 120, 80, 76,
     65, 73, 78, 84, 69, 88, 84, 128, 0, 0, 0, 0, 0, 0, 0, 0, 0, 0, 0, 0, 0, 0, 0, 0, 0,
     0, 0, 0, 0, 0, 0, 0, 0, 0, 0, 0, 0, 0, 0, 0, 0, 0, 0, 0, 208] =
     (1813726405, 1906722472, 1482181233, 4187303167, 382428319, 1717592113, 4155555803,
     3891128295)"
    by (simp add: compress_def H0_def sha_round_defs)
  have hashed: "blocks H0
     [116, 97, 120, 32, 121, 80, 76, 65, 73, 78, 84, 69, 88, 84, 116, 97, 120, 80, 76,
     65, 73, 78, 84, 69, 88, 84, 128, 0, 0, 0, 0, 0, 0, 0, 0, 0, 0, 0, 0, 0, 0, 0, 0, 0,
     0, 0, 0, 0, 0, 0, 0, 0, 0, 0, 0, 0, 0, 0, 0, 0, 0, 0, 0, 208] =
     (1813726405, 1906722472, 1482181233, 4187303167, 382428319, 1717592113, 4155555803,
     3891128295)"
    by (subst blocks.simps, subst blocks.simps) (simp add: compressed)
  show ?thesis
    unfolding sha256_def padded hashed by (simp add: be_bytes4_def)
qed

lemma digest_x_first:
  "sha256 ''taxPLAINTEXTtax yPLAINTEXT'' =
     [111, 246, 27, 82, 244, 49, 108, 50, 242, 36, 106, 32, 202, 181, 235, 201, 53, 162,
     17, 224, 88, 164, 174, 60, 81, 26, 141, 150, 248, 0, 187, 175]"
proof -
  have padded: "pad (map of_char ''taxPLAINTEXTtax yPLAINTEXT'') =
     [116, 97, 120, 80, 76, 65, 73, 78, 84, 69, 88, 84, 116, 97, 120, 32, 121, 80, 76,
     65, 73, 78, 84, 69, 88, 84, 128, 0, 0, 0, 0, 0, 0, 0, 0, 0, 0, 0, 0, 0, 0, 0, 0, 0,
     0, 0, 0, 0, 0, 0, 0, 0, 0, 0, 0, 0, 0, 0, 0, 0, 0, 0, 0, 208]"
    by (simp add: pad_def be_bytes8_def be_bytes4_def replicate_numeral)
  have compressed: "compress H0
     [116, 97, 120, 80, 76, 65, 73, 78, 84, 69, 88, 84, 116, 97, 120, 32, 121, 80, 76,
     65, 73, 78, 84, 69, 88, 84, 128, 0, 0, 0, 0, 0, 0, 0, 0, 0, 0, 0, 0, 0, 0, 0, 0, 0,
     0, 0, 0, 0, 0, 0, 0, 0, 0, 0, 0, 0, 0, 0, 0, 0, 0, 0, 0, 208] =
     (1878399826, 4096879666, 4062472736, 3400920009, 899813856, 1487187516, 1360694678,
     4160797615)"
    by (simp add: compress_def H0_def sha_round_defs)
  have hashed: "blocks H0
     [116, 97, 120, 80, 76, 65, 73, 78, 84, 69, 88, 84, 116, 97, 120, 32, 121, 80, 76,
     65, 73, 78, 84, 69, 88, 84, 128, 0, 0, 0, 0, 0, 0, 0, 0, 0, 0, 0, 0, 0, 0, 0, 0, 0,
     0, 0, 0, 0, 0, 0, 0, 0, 0, 0, 0, 0, 0, 0, 0, 0, 0, 0, 0, 208] =
     (1878399826, 4096879666, 4062472736, 3400920009, 899813856, 1487187516, 1360694678,
     4160797615)"
    by (subst blocks.simps, subst blocks.simps) (simp add: compressed)
  show ?thesis
    unfolding sha256_def padded hashed by (simp add: be_bytes4_def)
qed

lemma digest_int_first:
  "sha256 ''p.taxintxstringp.tcwint'' =
     [41, 177, 121, 96, 5, 199, 244, 110, 238, 34, 114, 214, 187, 189, 24, 186, 227, 88,
     175, 185, 158, 102, 208, 173, 89, 3, 40, 76, 40, 182, 245, 18]"
proof -
  have padded: "pad (map of_char ''p.taxintxstringp.tcwint'') =
     [112, 46, 116, 97, 120, 105, 110, 116, 120, 115, 116, 114, 105, 110, 103, 112, 46,
     116, 99, 119, 105, 110, 116, 128, 0, 0, 0, 0, 0, 0, 0, 0, 0, 0, 0, 0, 0, 0, 0, 0,
     0, 0, 0, 0, 0, 0, 0, 0, 0, 0, 0, 0, 0, 0, 0, 0, 0, 0, 0, 0, 0, 0, 0, 184]"
    by (simp add: pad_def be_bytes8_def be_bytes4_def replicate_numeral)
  have compressed: "compress H0
     [112, 46, 116, 97, 120, 105, 110, 116, 120, 115, 116, 114, 105, 110, 103, 112, 46,
     116, 99, 119, 105, 110, 116, 128, 0, 0, 0, 0, 0, 0, 0, 0, 0, 0, 0, 0, 0, 0, 0, 0,
     0, 0, 0, 0, 0, 0, 0, 0, 0, 0, 0, 0, 0, 0, 0, 0, 0, 0, 0, 0, 0, 0, 0, 184] =
     (699496800, 96990318, 3995235030, 3149732026, 3814240185, 2657538221, 1493379148,
     683078930)"
    by (simp add: compress_def H0_def sha_round_defs)
  have hashed: "blocks H0
     [112, 46, 116, 97, 120, 105, 110, 116, 120, 115, 116, 114, 105, 110, 103, 112, 46,
     116, 99, 119, 105, 110, 116, 128, 0, 0, 0, 0, 0, 0, 0, 0, 0, 0, 0, 0, 0, 0, 0, 0,
     0, 0, 0, 0, 0, 0, 0, 0, 0, 0, 0, 0, 0, 0, 0, 0, 0, 0, 0, 0, 0, 0, 0, 184] =
     (699496800, 96990318, 3995235030, 3149732026, 3814240185, 2657538221, 1493379148,
     683078930)"
    by (subst blocks.simps, subst blocks.simps) (simp add: compressed)
  show ?thesis
    unfolding sha256_def padded hashed by (simp add: be_bytes4_def)
qed

lemma digest_string_first:
  "sha256 ''p.taxstringxintp.tcwint'' =
     [214, 194, 178, 242, 86, 102, 252, 89, 224, 91, 12, 155, 117, 224, 149, 114, 240,
     94, 50, 3, 250, 140, 32, 48, 94, 90, 136, 29, 229, 173, 183, 103]"
proof -
  have padded: "pad (map of_char ''p.taxstringxintp.tcwint'') =
     [112, 46, 116, 97, 120, 115, 116, 114, 105, 110, 103, 120, 105, 110, 116, 112, 46,
     116, 99, 119, 105, 110, 116, 128, 0, 0, 0, 0, 0, 0, 0, 0, 0, 0, 0, 0, 0, 0, 0, 0,
     0, 0, 0, 0, 0, 0, 0, 0, 0, 0, 0, 0, 0, 0, 0, 0, 0, 0, 0, 0, 0, 0, 0, 184]"
    by (simp add: pad_def be_bytes8_def be_bytes4_def replicate_numeral)
  have compressed: "compress H0
     [112, 46, 116, 97, 120, 115, 116, 114, 105, 110, 103, 120, 105, 110, 116, 112, 46,
     116, 99, 119, 105, 110, 116, 128, 0, 0, 0, 0, 0, 0, 0, 0, 0, 0, 0, 0, 0, 0, 0, 0,
     0, 0, 0, 0, 0, 0, 0, 0, 0, 0, 0, 0, 0, 0, 0, 0, 0, 0, 0, 0, 0, 0, 0, 184] =
     (3603084018, 1449589849, 3764063387, 1977652594, 4032705027, 4203487280,
     1582991389, 3853367143)"
    by (simp add: compress_def H0_def sha_round_defs)
  have hashed: "blocks H0
     [112, 46, 116, 97, 120, 115, 116, 114, 105, 110, 103, 120, 105, 110, 116, 112, 46,
     116, 99, 119, 105, 110, 116, 128, 0, 0, 0, 0, 0, 0, 0, 0, 0, 0, 0, 0, 0, 0, 0, 0,
     0, 0, 0, 0, 0, 0, 0, 0, 0, 0, 0, 0, 0, 0, 0, 0, 0, 0, 0, 0, 0, 0, 0, 184] =
     (3603084018, 1449589849, 3764063387, 1977652594, 4032705027, 4203487280,
     1582991389, 3853367143)"
    by (subst blocks.simps, subst blocks.simps) (simp add: compressed)
  show ?thesis
    unfolding sha256_def padded hashed by (simp add: be_bytes4_def)
qed

lemma checksum_loop_lookup:
  assumes "checksum_loop ext e isc cs ps m = Inr m'" and "p \<in> set ps"
  shows "\<exists>c. checksum_of_party ext e isc cs p = Inr c \<and> m' p = Some c"
proof -
  have keep: "m' q = m q"
    if "checksum_loop ext e isc cs ps m = Inr m'" "q \<notin> set ps" for ps m m' q
    using that by (induction ps arbitrary: m) (auto split: sum.splits)
  show ?thesis
    using assms
  proof (induction ps arbitrary: m)
    case Nil
    then show ?case by simp
  next
    case (Cons q ps)
    from Cons.prems(1) obtain c where c: "checksum_of_party ext e isc cs q = Inr c"
      and rest: "checksum_loop ext e isc cs ps (m(q \<mapsto> c)) = Inr m'"
      by (auto split: sum.splits)
    show ?case
    proof (cases "p \<in> set ps")
      case True
      with rest show ?thesis by (rule Cons.IH)
    next
      case False
      with Cons.prems(2) have "p = q" by simp
      moreover from keep [OF rest False] have "m' p = (m(q \<mapsto> c)) p" .
      ultimately show ?thesis using c by simp
    qed
  qed
qed

lemma checksum_loop_succeeds:
  assumes "\<forall>p\<in>set ps. \<exists>c. checksum_of_party ext e isc cs p = Inr c"
  shows "\<exists>m'. checksum_loop ext e isc cs ps m = Inr m'"
  using assms by (induction ps arbitrary: m) auto

text \<open>
  Two runs differ as soon as the first succeeds and one party's checksum differs.
\<close>

lemma CreateChecksum_differs:
  assumes "info rA = Some eA" and "info rB = Some eB"
    and "\<forall>q\<in>set (DataParties (ExecuteInfo s)).
           \<exists>c. checksum_of_party ext eA (infoschema rA) (ccls rA) q = Inr c"
    and "p \<in> set (DataParties (ExecuteInfo s))"
    and "checksum_of_party ext eA (infoschema rA) (ccls rA) p = Inr cA"
    and "checksum_of_party ext eB (infoschema rB) (ccls rB) p = Inr cB"
    and "cA \<noteq> cB"
  shows "CreateChecksum ext s rA \<noteq> CreateChecksum ext s rB"
proof
  let ?ps = "DataParties (ExecuteInfo s)"
  assume same: "CreateChecksum ext s rA = CreateChecksum ext s rB"
  from assms(4) have ne: "?ps \<noteq> []" by auto
  from checksum_loop_succeeds [OF assms(3)] obtain m
    where m: "checksum_loop ext eA (infoschema rA) (ccls rA) ?ps Map.empty = Inr m" by blast
  with same assms(1,2) ne
  have m': "checksum_loop ext eB (infoschema rB) (ccls rB) ?ps Map.empty = Inr m"
    by (simp add: CreateChecksum_def)
  from checksum_loop_lookup [OF m assms(4)] assms(5) have "m p = Some cA" by simp
  moreover from checksum_loop_lookup [OF m' assms(4)] assms(6) have "m p = Some cB" by simp
  ultimately show False using assms(7) by simp
qed

lemma tied_first:
  "map (checksum_of_party example_Externals (the (info (prepared project_store tied_privs)))
     (infoschema (prepared project_store tied_privs)) (ccls (prepared project_store tied_privs)))
     [''alice'', ''bob'', ''y bob''] =
   [Inr \<lparr>TableSchema = sha256 ''p.taxstringx yintp.tcwint'',
         CCL = sha256 ''tax yPLAINTEXTtaxPLAINTEXT''\<rparr>,
    Inr \<lparr>TableSchema = sha256 ''p.tbzint'', CCL = sha256 []\<rparr>,
    Inr \<lparr>TableSchema = sha256 ''p.tdvint'', CCL = sha256 []\<rparr>]"
  by (simp add: project_eval prepare_eval checksum_eval)

lemma tied_second:
  "checksum_of_party example_Externals (the (info (prepared project_store (rev tied_privs))))
     (infoschema (prepared project_store (rev tied_privs)))
     (ccls (prepared project_store (rev tied_privs))) ''alice'' =
   Inr \<lparr>TableSchema = sha256 ''p.taxstringx yintp.tcwint'',
        CCL = sha256 ''taxPLAINTEXTtax yPLAINTEXT''\<rparr>"
  by (simp add: project_eval prepare_eval checksum_eval)

lemma twice_x_first:
  "map (checksum_of_party example_Externals
     (the (info (prepared (store_with_ta [x_int, x_string]) [])))
     (infoschema (prepared (store_with_ta [x_int, x_string]) []))
     (ccls (prepared (store_with_ta [x_int, x_string]) [])))
     [''alice'', ''bob'', ''y bob''] =
   [Inr \<lparr>TableSchema = sha256 ''p.taxintxstringp.tcwint'', CCL = sha256 []\<rparr>,
    Inr \<lparr>TableSchema = sha256 ''p.tbzint'', CCL = sha256 []\<rparr>,
    Inr \<lparr>TableSchema = sha256 ''p.tdvint'', CCL = sha256 []\<rparr>]"
  by (simp add: project_eval prepare_eval checksum_eval)

lemma twice_x_second:
  "checksum_of_party example_Externals
     (the (info (prepared (store_with_ta [x_string, x_int]) [])))
     (infoschema (prepared (store_with_ta [x_string, x_int]) []))
     (ccls (prepared (store_with_ta [x_string, x_int]) [])) ''alice'' =
   Inr \<lparr>TableSchema = sha256 ''p.taxstringxintp.tcwint'', CCL = sha256 []\<rparr>"
  by (simp add: project_eval prepare_eval checksum_eval)

lemma prepared_info:
  "info (prepared project_store tied_privs) =
     Some (the (info (prepared project_store tied_privs)))"
  "info (prepared project_store (rev tied_privs)) =
     Some (the (info (prepared project_store (rev tied_privs))))"
  "info (prepared (store_with_ta [x_int, x_string]) []) =
     Some (the (info (prepared (store_with_ta [x_int, x_string]) [])))"
  "info (prepared (store_with_ta [x_string, x_int]) []) =
     Some (the (info (prepared (store_with_ta [x_string, x_int]) [])))"
  by (simp_all add: project_eval prepare_eval)

lemma project_parties:
  "DataParties (ExecuteInfo (session_on store privs)) = [''alice'', ''bob'', ''y bob'']"
  by (simp add: session_on_def)

text \<open>
  Claim C1, as stated, fails, on runners that \<^verbatim>\<open>Prepare\<close> built. First: the store
  returns the two column constraints of \<open>tied_privs\<close> in the one order or in the
  other. Their entries have the same sort key, so the sort leaves them in the order of
  the input, and alice's CCL fingerprints of the two runs are different SHA-256 values.
  Second: table \<^verbatim>\<open>ta\<close> has the two columns \<open>x_int\<close> and \<open>x_string\<close> of one name,
  in the one order or in the other, and alice's schema fingerprints differ.
\<close>

theorem CreateChecksum_order_counterexample:
  "CreateChecksum example_Externals (session_on project_store tied_privs)
     (prepared project_store tied_privs) \<noteq>
   CreateChecksum example_Externals (session_on project_store tied_privs)
     (prepared project_store (rev tied_privs)) \<and>
   CreateChecksum example_Externals (session_on (store_with_ta [x_int, x_string]) [])
     (prepared (store_with_ta [x_int, x_string]) []) \<noteq>
   CreateChecksum example_Externals (session_on (store_with_ta [x_int, x_string]) [])
     (prepared (store_with_ta [x_string, x_int]) [])"
proof (intro conjI)
  have digests: "sha256 ''tax yPLAINTEXTtaxPLAINTEXT'' \<noteq> sha256 ''taxPLAINTEXTtax yPLAINTEXT''"
    by (simp add: digest_xy_first digest_x_first)
  show "CreateChecksum example_Externals (session_on project_store tied_privs)
       (prepared project_store tied_privs) \<noteq>
     CreateChecksum example_Externals (session_on project_store tied_privs)
       (prepared project_store (rev tied_privs))"
  proof (rule CreateChecksum_differs [OF prepared_info(1,2)])
    show "\<forall>q\<in>set (DataParties (ExecuteInfo (session_on project_store tied_privs))).
        \<exists>c. checksum_of_party example_Externals (the (info (prepared project_store tied_privs)))
          (infoschema (prepared project_store tied_privs))
          (ccls (prepared project_store tied_privs)) q = Inr c"
      using tied_first by (simp add: project_parties)
    show "''alice'' \<in> set (DataParties (ExecuteInfo (session_on project_store tied_privs)))"
      by (simp add: project_parties)
    show "checksum_of_party example_Externals (the (info (prepared project_store tied_privs)))
        (infoschema (prepared project_store tied_privs))
        (ccls (prepared project_store tied_privs)) ''alice'' =
      Inr \<lparr>TableSchema = sha256 ''p.taxstringx yintp.tcwint'',
           CCL = sha256 ''tax yPLAINTEXTtaxPLAINTEXT''\<rparr>"
      using tied_first by simp
    show "checksum_of_party example_Externals
        (the (info (prepared project_store (rev tied_privs))))
        (infoschema (prepared project_store (rev tied_privs)))
        (ccls (prepared project_store (rev tied_privs))) ''alice'' =
      Inr \<lparr>TableSchema = sha256 ''p.taxstringx yintp.tcwint'',
           CCL = sha256 ''taxPLAINTEXTtax yPLAINTEXT''\<rparr>"
      by (rule tied_second)
    show "\<lparr>TableSchema = sha256 ''p.taxstringx yintp.tcwint'',
           CCL = sha256 ''tax yPLAINTEXTtaxPLAINTEXT''\<rparr> \<noteq>
      \<lparr>TableSchema = sha256 ''p.taxstringx yintp.tcwint'',
           CCL = sha256 ''taxPLAINTEXTtax yPLAINTEXT''\<rparr>"
      using digests by simp
  qed
next
  have digests: "sha256 ''p.taxintxstringp.tcwint'' \<noteq> sha256 ''p.taxstringxintp.tcwint''"
    by (simp add: digest_int_first digest_string_first)
  show "CreateChecksum example_Externals (session_on (store_with_ta [x_int, x_string]) [])
       (prepared (store_with_ta [x_int, x_string]) []) \<noteq>
     CreateChecksum example_Externals (session_on (store_with_ta [x_int, x_string]) [])
       (prepared (store_with_ta [x_string, x_int]) [])"
  proof (rule CreateChecksum_differs [OF prepared_info(3,4)])
    show "\<forall>q\<in>set (DataParties (ExecuteInfo (session_on (store_with_ta [x_int, x_string]) []))).
        \<exists>c. checksum_of_party example_Externals
          (the (info (prepared (store_with_ta [x_int, x_string]) [])))
          (infoschema (prepared (store_with_ta [x_int, x_string]) []))
          (ccls (prepared (store_with_ta [x_int, x_string]) [])) q = Inr c"
      using twice_x_first by (simp add: project_parties)
    show "''alice'' \<in> set (DataParties (ExecuteInfo (session_on (store_with_ta [x_int, x_string]) [])))"
      by (simp add: project_parties)
    show "checksum_of_party example_Externals
        (the (info (prepared (store_with_ta [x_int, x_string]) [])))
        (infoschema (prepared (store_with_ta [x_int, x_string]) []))
        (ccls (prepared (store_with_ta [x_int, x_string]) [])) ''alice'' =
      Inr \<lparr>TableSchema = sha256 ''p.taxintxstringp.tcwint'', CCL = sha256 []\<rparr>"
      using twice_x_first by simp
    show "checksum_of_party example_Externals
        (the (info (prepared (store_with_ta [x_string, x_int]) [])))
        (infoschema (prepared (store_with_ta [x_string, x_int]) []))
        (ccls (prepared (store_with_ta [x_string, x_int]) [])) ''alice'' =
      Inr \<lparr>TableSchema = sha256 ''p.taxstringxintp.tcwint'', CCL = sha256 []\<rparr>"
      by (rule twice_x_second)
    show "\<lparr>TableSchema = sha256 ''p.taxintxstringp.tcwint'', CCL = sha256 []\<rparr> \<noteq>
      \<lparr>TableSchema = sha256 ''p.taxstringxintp.tcwint'', CCL = sha256 []\<rparr>"
      using digests by simp
  qed
qed


subsection \<open>\<^verbatim>\<open>Prepare\<close> and the tables that are not found\<close>

lemma resolve_tables_not_found:
  assumes "\<not> prepareAgain r"
    and "GetTableMetasByTableNames (MetaMgr (App s)) 0 (ExecutionInfo.ProjectID (ExecuteInfo s))
           names = (tbls1, notFound1, None)"
    and "notFound1 \<noteq> []"
    and "GetProjectMembers (MetaMgr (App s)) 0 (ExecutionInfo.ProjectID (ExecuteInfo s)) =
           Inr members"
    and "GetTableMetasByTableNames (MetaMgr (App s)) 1 (ExecutionInfo.ProjectID (ExecuteInfo s))
           names = (tbls2, notFound2, None)"
    and "notFound2 \<noteq> []"
  shows "resolve_tables s r names =
     Inl (returning s 1 [] [] (Some (TableNotFound notFound2)) (r\<lparr>tables := tbls2\<rparr>)
            [(notFound1, Subtraction members [Config.PartyCode (Conf (App s))])])"
  using assms by (simp add: resolve_tables_def Let_def)

lemma Prepare_not_found:
  assumes "\<not> prepareAgain r"
    and "GetTableMetasByTableNames (MetaMgr (App s)) 0 (ExecutionInfo.ProjectID (ExecuteInfo s))
           (map GetTableName usedTables) = (tbls1, notFound1, None)"
    and "notFound1 \<noteq> []"
    and "GetProjectMembers (MetaMgr (App s)) 0 (ExecutionInfo.ProjectID (ExecuteInfo s)) =
           Inr members"
    and "GetTableMetasByTableNames (MetaMgr (App s)) 1 (ExecutionInfo.ProjectID (ExecuteInfo s))
           (map GetTableName usedTables) = (tbls2, notFound2, None)"
    and "notFound2 \<noteq> []"
    and "Finish (MetaMgr (App s)) 1 (Some (TableNotFound notFound2)) =
           Some (TableNotFound notFound2)"
  shows "Prepare ext s r usedTables =
     \<lparr>dataParties = [], workParties = [], err = Some (TableNotFound notFound2),
      runner = r\<lparr>info := None, infoschema := None, ccls := [], tables := tbls2\<rparr>,
      asked = [(notFound1, Subtraction members [Config.PartyCode (Conf (App s))])]\<rparr>"
proof -
  have "\<not> prepareAgain (Clear r)" using assms(1) by (simp add: Clear_def)
  from resolve_tables_not_found [OF this assms(2-6)] assms(7)
  show ?thesis
    by (simp add: Prepare_def prepareData_def returning_def Clear_def)
qed

text \<open>
  Claim C4, amended to the calls made while the \<^verbatim>\<open>prepareAgain\<close> flag is not set.
  The first lookup leaves names not found, the project members are asked, the second
  lookup still leaves names not found: \<^verbatim>\<open>Prepare\<close> returns no parties and the
  \<^verbatim>\<open>TableNotFound\<close> error with the names the second lookup did not find, given
  that the transaction's \<^verbatim>\<open>Finish\<close> hands that error back.
\<close>

theorem Prepare_TableNotFound:
  assumes "\<not> prepareAgain r"
    and "GetTableMetasByTableNames (MetaMgr (App s)) 0 (ExecutionInfo.ProjectID (ExecuteInfo s))
           (map GetTableName usedTables) = (tbls1, notFound1, None)"
    and "notFound1 \<noteq> []"
    and "GetProjectMembers (MetaMgr (App s)) 0 (ExecutionInfo.ProjectID (ExecuteInfo s)) =
           Inr members"
    and "GetTableMetasByTableNames (MetaMgr (App s)) 1 (ExecutionInfo.ProjectID (ExecuteInfo s))
           (map GetTableName usedTables) = (tbls2, notFound2, None)"
    and "notFound2 \<noteq> []"
    and "Finish (MetaMgr (App s)) 1 (Some (TableNotFound notFound2)) =
           Some (TableNotFound notFound2)"
  shows "err (Prepare ext s r usedTables) = Some (TableNotFound notFound2) \<and>
         dataParties (Prepare ext s r usedTables) = [] \<and>
         workParties (Prepare ext s r usedTables) = [] \<and>
         asked (Prepare ext s r usedTables) =
           [(notFound1, Subtraction members [Config.PartyCode (Conf (App s))])]"
  by (simp add: Prepare_not_found [OF assms])

text \<open>
  Claim C4 on the example: table \<^verbatim>\<open>tx\<close> is in no store, and a new runner gets
  \<^verbatim>\<open>TableNotFound\<close> for it.
\<close>

theorem Prepare_TableNotFound_witness:
  "err (Prepare example_Externals example_Session new_runner
          [NewDbTable ''p'' ''ta'', NewDbTable ''p'' ''tx'']) = Some (TableNotFound [''tx'']) \<and>
   asked (Prepare example_Externals example_Session new_runner
          [NewDbTable ''p'' ''ta'', NewDbTable ''p'' ''tx'']) = [([''tx''], [''bob''])]"
  using Prepare_TableNotFound [of new_runner example_Session
      "[NewDbTable ''p'' ''ta'', NewDbTable ''p'' ''tx'']"
      "[hd example_store]" "[''tx'']" "[''alice'', ''bob'']" "[hd example_store]" "[''tx'']"
      example_Externals]
  by (simp add: GetTableName_def NewDbTable_def new_runner_def example_Session_def
      example_MetaMgr_def example_store_def Subtraction_def)

text \<open>
  Claim C4, as stated, fails after \<^verbatim>\<open>SetPrepareAgain\<close>: the same call on a runner
  with the flag set does not ask the peers and returns no error; it goes on with table
  \<^verbatim>\<open>ta\<close> alone, although \<^verbatim>\<open>tx\<close> was not found.
\<close>

theorem Prepare_again_counterexample:
  "err (Prepare example_Externals example_Session (SetPrepareAgain new_runner)
          [NewDbTable ''p'' ''ta'', NewDbTable ''p'' ''tx'']) = None \<and>
   fst (snd (GetTableMetasByTableNames (MetaMgr (App example_Session)) 0 ''p'' [''ta'', ''tx''])) =
     [''tx''] \<and>
   tables (runner (Prepare example_Externals example_Session (SetPrepareAgain new_runner)
          [NewDbTable ''p'' ''ta'', NewDbTable ''p'' ''tx''])) = [hd example_store] \<and>
   dataParties (Prepare example_Externals example_Session (SetPrepareAgain new_runner)
          [NewDbTable ''p'' ''ta'', NewDbTable ''p'' ''tx'']) = [''alice''] \<and>
   asked (Prepare example_Externals example_Session (SetPrepareAgain new_runner)
          [NewDbTable ''p'' ''ta'', NewDbTable ''p'' ''tx'']) = []"
  by (simp add: prepare_eval)

text \<open>
  Claim C5, amended. On the same path as in claim C4 the failing call leaves the runner
  with no engines info, no info schema and no column control list: they are cleared on
  entry, and nothing partial is committed. The cached tables are the ones the second
  lookup resolved. The runner is as before the call only if it was so already.
\<close>

theorem Prepare_TableNotFound_runner:
  assumes "\<not> prepareAgain r"
    and "GetTableMetasByTableNames (MetaMgr (App s)) 0 (ExecutionInfo.ProjectID (ExecuteInfo s))
           (map GetTableName usedTables) = (tbls1, notFound1, None)"
    and "notFound1 \<noteq> []"
    and "GetProjectMembers (MetaMgr (App s)) 0 (ExecutionInfo.ProjectID (ExecuteInfo s)) =
           Inr members"
    and "GetTableMetasByTableNames (MetaMgr (App s)) 1 (ExecutionInfo.ProjectID (ExecuteInfo s))
           (map GetTableName usedTables) = (tbls2, notFound2, None)"
    and "notFound2 \<noteq> []"
    and "Finish (MetaMgr (App s)) 1 (Some (TableNotFound notFound2)) =
           Some (TableNotFound notFound2)"
  shows "runner (Prepare ext s r usedTables) =
           r\<lparr>info := None, infoschema := None, ccls := [], tables := tbls2\<rparr> \<and>
         (runner (Prepare ext s r usedTables) = r) =
           (info r = None \<and> infoschema r = None \<and> ccls r = [] \<and> tables r = tbls2)"
proof -
  have after: "runner (Prepare ext s r usedTables) =
      r\<lparr>info := None, infoschema := None, ccls := [], tables := tbls2\<rparr>"
    by (simp add: Prepare_not_found [OF assms])
  have "(r\<lparr>info := None, infoschema := None, ccls := [], tables := tbls2\<rparr> = r) =
      (info r = None \<and> infoschema r = None \<and> ccls r = [] \<and> tables r = tbls2)"
    by (cases r) auto
  with after show ?thesis by simp
qed

text \<open>
  Claim C5 on the example: the runner prepared for the project is asked to prepare a
  query on \<^verbatim>\<open>ta\<close> and the unknown \<^verbatim>\<open>tx\<close>.
\<close>

theorem Prepare_TableNotFound_runner_witness:
  "runner (Prepare example_Externals (session_on project_store project_privs)
      (prepared project_store project_privs)
      [NewDbTable ''p'' ''ta'', NewDbTable ''p'' ''tx'']) =
   (prepared project_store project_privs)
      \<lparr>info := None, infoschema := None, ccls := [], tables := [hd project_store]\<rparr>"
  using Prepare_TableNotFound_runner [of "prepared project_store project_privs"
      "session_on project_store project_privs"
      "[NewDbTable ''p'' ''ta'', NewDbTable ''p'' ''tx'']"
      "[hd project_store]" "[''tx'']" "[''alice'', ''bob'', ''y bob'']" "[hd project_store]"
      "[''tx'']" example_Externals]
  by (simp add: project_eval prepare_eval)

text \<open>
  Claim C5, as stated, fails already on a new runner: the call fails with
  \<^verbatim>\<open>TableNotFound\<close> for \<^verbatim>\<open>tx\<close> and leaves the resolved table \<^verbatim>\<open>ta\<close> in
  the runner's cached tables, which were empty before.
\<close>

theorem Prepare_TableNotFound_runner_counterexample:
  "err (Prepare example_Externals example_Session new_runner
          [NewDbTable ''p'' ''ta'', NewDbTable ''p'' ''tx'']) = Some (TableNotFound [''tx'']) \<and>
   tables new_runner = [] \<and>
   tables (runner (Prepare example_Externals example_Session new_runner
          [NewDbTable ''p'' ''ta'', NewDbTable ''p'' ''tx''])) = [hd example_store] \<and>
   runner (Prepare example_Externals example_Session new_runner
          [NewDbTable ''p'' ''ta'', NewDbTable ''p'' ''tx'']) \<noteq> new_runner"
  by (simp add: prepare_eval)


subsection \<open>The parties of a successful \<^verbatim>\<open>Prepare\<close>\<close>

lemma tables_loop_parties:
  assumes "tables_loop ext ts (ps, p2t, refs) = Inr (ps', p2t', refs')"
  shows "ps' = ps @ map (\<lambda>t. Owner (Table t)) ts"
  using assms
proof (induction ts arbitrary: ps p2t refs)
  case Nil
  then show ?case by simp
next
  case (Cons t ts)
  from Cons.prems obtain q r where
    "tables_loop ext ts (ps @ [Owner (Table t)], q, r) = Inr (ps', p2t', refs')"
    by (auto simp add: Let_def split: sum.splits)
  from Cons.IH [OF this] show ?case by simp
qed

lemma distinct_remdups_adj_sorted:
  "sorted xs \<Longrightarrow> distinct (remdups_adj xs)"
  by (induction xs rule: remdups_adj.induct) (auto dest: order_antisym)

lemma SliceDeDup_sorted_set:
  "SliceDeDup xs = sorted_list_of_set (set xs)"
proof -
  have "sorted (remdups_adj (sort xs))" by (simp add: sorted_remdups_adj)
  moreover have "distinct (remdups_adj (sort xs))" by (simp add: distinct_remdups_adj_sorted)
  moreover have "set (remdups_adj (sort xs)) = set xs" by simp
  ultimately show ?thesis
    unfolding SliceDeDup_def
    by (metis List.finite_set sorted_list_of_set.idem_if_sorted_distinct)
qed

lemma resolve_tables_returns:
  assumes "resolve_tables s r names = Inl res"
    and "\<And>txn e. Finish (MetaMgr (App s)) txn (Some e) \<noteq> None"
  shows "err res \<noteq> None"
  using assms
  by (auto simp add: resolve_tables_def returning_def Let_def
      split: prod.splits option.splits if_splits sum.splits)

lemma derive_parties_ok:
  assumes "err (derive_parties ext s names txn r asks) = None"
    and "\<And>txn e. Finish (MetaMgr (App s)) txn (Some e) \<noteq> None"
  shows "dataParties (derive_parties ext s names txn r asks) =
           SliceDeDup (map (\<lambda>t. Owner (Table t)) (tables r)) \<and>
         workParties (derive_parties ext s names txn r asks) =
           SliceDeDup (SliceDeDup (map (\<lambda>t. Owner (Table t)) (tables r)) @
             [Issuer (ExecuteInfo s)]) \<and>
         tables (runner (derive_parties ext s names txn r asks)) = tables r"
proof (cases "tables_loop ext (tables r) ([], Map.empty, Map.empty)")
  case (Inl e)
  with assms show ?thesis by (simp add: derive_parties_def returning_def)
next
  case (Inr acc)
  obtain ps p2t refs where acc: "acc = (ps, p2t, refs)" by (cases acc)
  from tables_loop_parties [OF Inr [unfolded acc]]
  have ps: "ps = map (\<lambda>t. Owner (Table t)) (tables r)" by simp
  show ?thesis
    using assms Inr acc ps
    by (auto simp add: derive_parties_def returning_def Let_def
        split: sum.splits prod.splits)
qed

lemma prepareData_ok:
  assumes "err (prepareData ext s r names) = None"
    and "\<And>txn e. Finish (MetaMgr (App s)) txn (Some e) \<noteq> None"
  shows "dataParties (prepareData ext s r names) =
           SliceDeDup (map (\<lambda>t. Owner (Table t)) (tables (runner (prepareData ext s r names)))) \<and>
         workParties (prepareData ext s r names) =
           SliceDeDup (dataParties (prepareData ext s r names) @ [Issuer (ExecuteInfo s)])"
proof (cases "resolve_tables s r names")
  case (Inl res)
  with resolve_tables_returns [OF Inl assms(2)] assms(1) show ?thesis
    by (simp add: prepareData_def)
next
  case (Inr go)
  obtain txn r' asks where go: "go = (txn, r', asks)" by (cases go)
  with Inr assms(1) have "err (derive_parties ext s names txn r' asks) = None"
    by (simp add: prepareData_def)
  from derive_parties_ok [OF this assms(2)] Inr go show ?thesis
    by (simp add: prepareData_def)
qed

lemma Prepare_fields:
  "dataParties (Prepare ext s r used) =
     dataParties (prepareData ext s (Clear r) (map GetTableName used))"
  "workParties (Prepare ext s r used) =
     workParties (prepareData ext s (Clear r) (map GetTableName used))"
  "tables (runner (Prepare ext s r used)) =
     tables (runner (prepareData ext s (Clear r) (map GetTableName used)))"
  "err (Prepare ext s r used) = None \<Longrightarrow>
     err (prepareData ext s (Clear r) (map GetTableName used)) = None"
  by (auto simp add: Prepare_def Let_def split: option.splits sum.splits)

text \<open>
  Claim C6. When \<^verbatim>\<open>Prepare\<close> returns without an error, \<^verbatim>\<open>dataParties\<close> is the
  sorted list without duplicates of the owners of the tables in \<^verbatim>\<open>r.tables\<close>, and
  \<^verbatim>\<open>workParties\<close> is the sorted list without duplicates of these owners and the
  issuer; so both depend on the set of owners only, not on the order of the tables, the
  data parties are among the work parties, and the issuer is a work party. The
  transaction is taken not to turn an error into a success.
\<close>

theorem Prepare_parties:
  assumes "err (Prepare ext s r usedTables) = None"
    and "\<And>txn e. Finish (MetaMgr (App s)) txn (Some e) \<noteq> None"
  shows "dataParties (Prepare ext s r usedTables) =
           sorted_list_of_set
             ((\<lambda>t. Owner (Table t)) ` set (tables (runner (Prepare ext s r usedTables)))) \<and>
         workParties (Prepare ext s r usedTables) =
           sorted_list_of_set
             (insert (Issuer (ExecuteInfo s))
               ((\<lambda>t. Owner (Table t)) ` set (tables (runner (Prepare ext s r usedTables))))) \<and>
         set (dataParties (Prepare ext s r usedTables)) =
           (\<lambda>t. Owner (Table t)) ` set (tables (runner (Prepare ext s r usedTables))) \<and>
         set (workParties (Prepare ext s r usedTables)) =
           set (dataParties (Prepare ext s r usedTables)) \<union> {Issuer (ExecuteInfo s)} \<and>
         sorted (dataParties (Prepare ext s r usedTables)) \<and>
         distinct (dataParties (Prepare ext s r usedTables)) \<and>
         sorted (workParties (Prepare ext s r usedTables)) \<and>
         distinct (workParties (Prepare ext s r usedTables)) \<and>
         set (dataParties (Prepare ext s r usedTables)) \<subseteq>
           set (workParties (Prepare ext s r usedTables)) \<and>
         Issuer (ExecuteInfo s) \<in> set (workParties (Prepare ext s r usedTables))"
proof -
  let ?owners = "(\<lambda>t. Owner (Table t)) ` set (tables (runner (Prepare ext s r usedTables)))"
  from prepareData_ok [OF Prepare_fields(4) [OF assms(1)] assms(2)]
  have dps: "dataParties (Prepare ext s r usedTables) = sorted_list_of_set ?owners"
    and wps: "workParties (Prepare ext s r usedTables) =
      sorted_list_of_set (insert (Issuer (ExecuteInfo s)) ?owners)"
    by (simp_all add: Prepare_fields(1-3) SliceDeDup_sorted_set)
  let ?all = "insert (Issuer (ExecuteInfo s)) ?owners"
  have fin: "finite ?owners" "finite ?all" by simp_all
  have listed: "set (sorted_list_of_set A) = A \<and> sorted (sorted_list_of_set A) \<and>
      distinct (sorted_list_of_set A)" if "finite A" for A :: "string set"
    using that by simp
  note D = listed [OF fin(1)] and W = listed [OF fin(2)]
  have "?all = ?owners \<union> {Issuer (ExecuteInfo s)}" "?owners \<subseteq> ?all"
    "Issuer (ExecuteInfo s) \<in> ?all" by auto
  with D W show ?thesis
    by (simp only: dps wps simp_thms)
qed

text \<open>
  Claim C6 on the example: a query on bob's table \<^verbatim>\<open>tb\<close>, issued by alice; and the
  parties of the whole project, whatever the order of the store.
\<close>

theorem Prepare_parties_witness:
  "dataParties (Prepare example_Externals example_Session new_runner [NewDbTable ''p'' ''tb'']) =
     [''bob''] \<and>
   workParties (Prepare example_Externals example_Session new_runner [NewDbTable ''p'' ''tb'']) =
     [''alice'', ''bob''] \<and>
   dataParties (Prepare example_Externals (session_on project_store_permuted project_privs)
     new_runner project_tables) = [''alice'', ''bob'', ''y bob'']"
proof -
  have ok: "err (Prepare example_Externals example_Session new_runner [NewDbTable ''p'' ''tb'']) =
      None"
    by (simp add: prepare_eval)
  have tb: "tables (runner (Prepare example_Externals example_Session new_runner
      [NewDbTable ''p'' ''tb''])) = [example_store ! 1]"
    by (simp add: prepare_eval)
  have "Finish (MetaMgr (App example_Session)) txn (Some e) \<noteq> None" for txn e
    by (simp add: example_Session_def example_MetaMgr_def)
  moreover have issuer: "Issuer (ExecuteInfo example_Session) = ''alice''"
    by (simp add: example_Session_def)
  moreover have owner: "Owner (Table (example_store ! 1)) = ''bob''"
    by (simp add: example_store_def)
  ultimately
  have "dataParties (Prepare example_Externals example_Session new_runner
        [NewDbTable ''p'' ''tb'']) = sorted_list_of_set {''bob''}"
    and "workParties (Prepare example_Externals example_Session new_runner
        [NewDbTable ''p'' ''tb'']) = sorted_list_of_set {''alice'', ''bob''}"
    using Prepare_parties [OF ok] by (simp_all add: tb)
  moreover have "dataParties (Prepare example_Externals
      (session_on project_store_permuted project_privs) new_runner project_tables) =
      [''alice'', ''bob'', ''y bob'']"
    by (simp add: project_eval prepare_eval)
  ultimately show ?thesis by (simp add: insort_key.simps)
qed


subsection \<open>\<^verbatim>\<open>CreateExecutor\<close>: what the executor is built from\<close>

lemma CreateExecutor_Inr:
  assumes "CreateExecutor path s plan = Inr ex"
  obtains parties myGraph myPubKey req where
    "start_parties s (CompiledPlan.Parties plan) 0 = Inr parties"
    "SubGraphs plan (Config.PartyCode (Conf (App s))) = Some myGraph"
    "GetPubKeyByParty (PartyMgr (App s)) (Config.PartyCode (Conf (App s))) = Inr myPubKey"
    "PlanReqs ex = [Config.PartyCode (Conf (App s)) \<mapsto> req]"
    "req = \<lparr>SessionParams =
             \<lparr>SessionStartParams.PartyCode = Config.PartyCode (Conf (App s)),
              SessionId = JobID (ExecuteInfo s),
              SpuRuntimeCfg = SpuRuntimeConf plan, Parties = parties\<rparr>,
           Graph = myGraph, Async = False,
           DebugOpts = ExecutionInfo.DebugOpts (ExecuteInfo s)\<rparr>"
    "OutputNames ex = (if IsIssuer s then GetColumns (Schema plan) else [])"
  using assms
  by (auto simp add: CreateExecutor_def NewExecutor_def Let_def split: sum.splits option.splits)

lemma start_parties_AsyncMode:
  "start_parties (s\<lparr>AsyncMode := b\<rparr>) ps i = start_parties s ps i"
  by (induction ps arbitrary: i) (simp_all split: sum.splits)

lemma example_start_parties:
  "start_parties (example_Session\<lparr>IsIssuer := b\<rparr>) [''alice'', ''bob''] 0 =
     Inr [\<lparr>Code = ''alice'', Name = ''alice'', Rank = 0, Host = ''alice:8080'', PublicKey = ''key''\<rparr>,
          \<lparr>Code = ''bob'', Name = ''bob'', Rank = 1, Host = ''bob:8080'', PublicKey = ''key''\<rparr>]"
  by (simp add: example_Session_def)

lemma example_issuer: "example_Session\<lparr>IsIssuer := True\<rparr> = example_Session"
  by (simp add: example_Session_def)

lemma example_CreateExecutor:
  "\<exists>ex. CreateExecutor path (example_Session\<lparr>IsIssuer := b\<rparr>) example_plan = Inr ex"
  by (simp add: CreateExecutor_def example_plan_def example_start_parties)
    (simp add: example_Session_def NewExecutor_def Let_def)

text \<open>
  Claim C7. Whenever \<^verbatim>\<open>CreateExecutor\<close> returns an executor for a compiled plan, the
  output names of the executor are the names of the columns of the plan's schema, in
  their order, if this party is the issuer of the session, and the empty list if it
  is not.
\<close>

theorem CreateExecutor_output_names:
  assumes "CreateExecutor path s plan = Inr ex"
  shows "(IsIssuer s \<longrightarrow> OutputNames ex = GetColumns (Schema plan)) \<and>
         (\<not> IsIssuer s \<longrightarrow> OutputNames ex = [])"
  using assms by (rule CreateExecutor_Inr) simp

text \<open>
  The example plan on the example session: alice as the issuer gets the two columns of
  the schema, alice as a party that is not the issuer gets none.
\<close>

theorem CreateExecutor_output_names_witness:
  "(\<exists>ex. CreateExecutor ''/callback'' example_Session example_plan = Inr ex \<and>
         OutputNames ex = [''x'', ''z'']) \<and>
   (\<exists>ex. CreateExecutor ''/callback'' (example_Session\<lparr>IsIssuer := False\<rparr>) example_plan = Inr ex \<and>
         OutputNames ex = [])"
proof -
  have issuer: "IsIssuer example_Session"
    by (simp add: example_Session_def)
  have cols: "GetColumns (Schema example_plan) = [''x'', ''z'']"
    by (simp add: GetColumns_def example_plan_def)
  obtain ex where ex: "CreateExecutor ''/callback'' example_Session example_plan = Inr ex"
    using example_CreateExecutor [of "''/callback''" True] by (auto simp add: example_issuer)
  obtain ex' where ex':
    "CreateExecutor ''/callback'' (example_Session\<lparr>IsIssuer := False\<rparr>) example_plan = Inr ex'"
    using example_CreateExecutor [of "''/callback''" False] by auto
  show ?thesis
    using CreateExecutor_output_names [OF ex] CreateExecutor_output_names [OF ex'] ex ex'
    by (simp add: issuer cols)
qed

text \<open>
  Claim C10. Whenever \<^verbatim>\<open>CreateExecutor\<close> returns an executor, its map of requests has
  one entry, under the party code of this broker, and the \<^verbatim>\<open>Async\<close> field of that
  request is false; and setting the async-mode flag of the session to any value
  changes nothing of what \<^verbatim>\<open>CreateExecutor\<close> returns.
\<close>

theorem CreateExecutor_request_not_async:
  "(\<forall>ex. CreateExecutor path s plan = Inr ex \<longrightarrow>
      (\<exists>req. PlanReqs ex = [Config.PartyCode (Conf (App s)) \<mapsto> req] \<and> Async req = False)) \<and>
   CreateExecutor path (s\<lparr>AsyncMode := b\<rparr>) plan = CreateExecutor path s plan"
proof (intro conjI allI impI)
  fix ex
  assume "CreateExecutor path s plan = Inr ex"
  then obtain req where "PlanReqs ex = [Config.PartyCode (Conf (App s)) \<mapsto> req]"
    and "Async req = False"
    by (rule CreateExecutor_Inr) simp
  then show "\<exists>req. PlanReqs ex = [Config.PartyCode (Conf (App s)) \<mapsto> req] \<and> Async req = False"
    by blast
next
  show "CreateExecutor path (s\<lparr>AsyncMode := b\<rparr>) plan = CreateExecutor path s plan"
    by (simp add: CreateExecutor_def start_parties_AsyncMode Let_def
      cong: sum.case_cong option.case_cong)
qed

text \<open>
  The example plan on the example session in async mode: the request for alice is not
  async.
\<close>

theorem CreateExecutor_request_not_async_witness:
  "\<exists>ex req. CreateExecutor ''/callback'' (example_Session\<lparr>AsyncMode := True\<rparr>) example_plan = Inr ex \<and>
     PlanReqs ex = [''alice'' \<mapsto> req] \<and> Async req = False \<and> Graph req = ''graph of alice''"
proof -
  obtain ex where ex: "CreateExecutor ''/callback'' example_Session example_plan = Inr ex"
    using example_CreateExecutor [of "''/callback''" True] by (auto simp add: example_issuer)
  have self: "Config.PartyCode (Conf (App example_Session)) = ''alice''"
    by (simp add: example_Session_def)
  have async: "CreateExecutor ''/callback'' (example_Session\<lparr>AsyncMode := True\<rparr>) example_plan = Inr ex"
    and "\<exists>req. PlanReqs ex = [''alice'' \<mapsto> req] \<and> Async req = False"
    using CreateExecutor_request_not_async [of "''/callback''" example_Session example_plan True] ex
    by (simp_all add: self)
  then obtain req where req: "PlanReqs ex = [''alice'' \<mapsto> req]" "Async req = False"
    by blast
  obtain req' where req': "PlanReqs ex = [''alice'' \<mapsto> req']" "Graph req' = ''graph of alice''"
    using ex by (rule CreateExecutor_Inr) (simp add: self example_plan_def)
  have "req' = req"
    using req(1) req'(1) by (auto dest: map_upd_eqD1)
  with async req req' show ?thesis by blast
qed


subsection \<open>The garbage-collection loops\<close>





lemma fold_DeleteSession:
  "fold DeleteSession ids sessions = filter (\<lambda>item. fst item \<notin> set ids) sessions"
  by (induction ids arbitrary: sessions) (auto simp add: DeleteSession_def intro: filter_cong)



text \<open>
  Claim C9. At a tick of \<^verbatim>\<open>SessionGc\<close> the registry keeps, in their order, the
  entries whose id the metadata layer did not report canceled for the snapshot of that
  tick, and no other: the ids that leave the registry are the ids of the snapshot that
  were reported canceled, which are all the reported ids when only ids of the snapshot
  are reported. A lookup that fails reports nothing, and the registry stays as it is.
\<close>

theorem SessionGc_tick_deletes_canceled:
  "(\<forall>canceledIds. CheckIdCanceled app k (map fst sessions) = Inr canceledIds \<longrightarrow>
      SessionGc_tick app k sessions = filter (\<lambda>item. fst item \<notin> set canceledIds) sessions \<and>
      fst ` set sessions - fst ` set (SessionGc_tick app k sessions) =
        fst ` set sessions \<inter> set canceledIds \<and>
      (set canceledIds \<subseteq> fst ` set sessions \<longrightarrow>
         fst ` set sessions - fst ` set (SessionGc_tick app k sessions) = set canceledIds)) \<and>
   (\<forall>e. CheckIdCanceled app k (map fst sessions) = Inl e \<longrightarrow>
      SessionGc_tick app k sessions = sessions)"
proof (intro conjI allI impI)
  fix canceledIds
  assume reported: "CheckIdCanceled app k (map fst sessions) = Inr canceledIds"
  then show kept: "SessionGc_tick app k sessions =
      filter (\<lambda>item. fst item \<notin> set canceledIds) sessions"
    by (simp add: SessionGc_tick_def fold_DeleteSession)
  show deleted: "fst ` set sessions - fst ` set (SessionGc_tick app k sessions) =
      fst ` set sessions \<inter> set canceledIds"
    unfolding kept by force
  show "fst ` set sessions - fst ` set (SessionGc_tick app k sessions) = set canceledIds"
    if "set canceledIds \<subseteq> fst ` set sessions"
    using that unfolding deleted by blast
next
  fix e
  assume "CheckIdCanceled app k (map fst sessions) = Inl e"
  then show "SessionGc_tick app k sessions = sessions"
    by (simp add: SessionGc_tick_def)
qed

text \<open>
  Three sessions: at tick 1 the first is reported canceled and the other two stay; at
  tick 0 the lookup fails and all three stay.
\<close>

theorem SessionGc_tick_deletes_canceled_witness:
  "CheckIdCanceled example_GcApp 1 (map fst example_sessions) = Inr [''job 1''] \<and>
   SessionGc_tick example_GcApp 1 example_sessions =
     [(''job 2'', example_Session), (''job 3'', example_Session)] \<and>
   CheckIdCanceled example_GcApp 0 (map fst example_sessions) = Inl (External ''lookup failed'') \<and>
   SessionGc_tick example_GcApp 0 example_sessions = example_sessions"
proof -
  have one: "CheckIdCanceled example_GcApp 1 (map fst example_sessions) = Inr [''job 1'']"
    by (simp add: example_GcApp_def example_sessions_def)
  have zero: "CheckIdCanceled example_GcApp 0 (map fst example_sessions) =
      Inl (External ''lookup failed'')"
    by (simp add: example_GcApp_def)
  have "SessionGc_tick example_GcApp 1 example_sessions =
      filter (\<lambda>item. fst item \<notin> set [''job 1'']) example_sessions"
    using SessionGc_tick_deletes_canceled [of example_GcApp 1 example_sessions] one by blast
  then have "SessionGc_tick example_GcApp 1 example_sessions =
      [(''job 2'', example_Session), (''job 3'', example_Session)]"
    by (simp add: example_sessions_def)
  moreover have "SessionGc_tick example_GcApp 0 example_sessions = example_sessions"
    using SessionGc_tick_deletes_canceled [of example_GcApp 0 example_sessions] zero by blast
  ultimately show ?thesis
    using one zero by simp
qed

end
